theory Spec2Isabelle
  imports Complex_Main
begin

section \<open>Numbers\<close>

text \<open>
  The matching service computes with JavaScript numbers. The model takes the inputs
  (coordinates, fares, the provider's figures) to be finite and computes with exact
  reals, so rounding error, overflow and the sign of zero are outside it. In
  particular \<open>calculateDistance\<close> is the haversine formula over the reals: what it
  says about a distance holds of the code up to the rounding of doubles, which can
  change the last digits and, for nearly antipodal points, turn the result into
  \<open>NaN\<close>. What the
  code can produce from finite inputs beyond the reals is kept: a division by zero
  gives an infinity or \<open>NaN\<close>, and a figure missing from the provider's reply
  gives \<open>NaN\<close>. The type \<open>jsnum\<close> carries these values through the arithmetic,
  comparisons and \<open>Math.max\<close>/\<open>Math.min\<close>/\<open>Math.round\<close> as IEEE 754 and
  ECMAScript define them.
\<close>

datatype jsnum = Num real | PInf | NInf | NaN

fun jneg :: "jsnum \<Rightarrow> jsnum" where
  "jneg (Num a) = Num (- a)"
| "jneg PInf = NInf"
| "jneg NInf = PInf"
| "jneg NaN = NaN"

fun jadd :: "jsnum \<Rightarrow> jsnum \<Rightarrow> jsnum" where
  "jadd NaN _ = NaN"
| "jadd _ NaN = NaN"
| "jadd (Num a) (Num b) = Num (a + b)"
| "jadd PInf NInf = NaN"
| "jadd NInf PInf = NaN"
| "jadd PInf _ = PInf"
| "jadd _ PInf = PInf"
| "jadd NInf _ = NInf"
| "jadd _ NInf = NInf"

definition jsub :: "jsnum \<Rightarrow> jsnum \<Rightarrow> jsnum" where
  "jsub a b = jadd a (jneg b)"

text \<open>The sign of an infinity times (or over) a finite factor; zero counts as \<open>+0\<close>.\<close>

fun jflip :: "bool \<Rightarrow> jsnum \<Rightarrow> jsnum" where
  "jflip True x = x"
| "jflip False x = jneg x"

fun jmul :: "jsnum \<Rightarrow> jsnum \<Rightarrow> jsnum" where
  "jmul NaN _ = NaN"
| "jmul _ NaN = NaN"
| "jmul (Num a) (Num b) = Num (a * b)"
| "jmul (Num a) i = (if a = 0 then NaN else jflip (0 < a) i)"
| "jmul i (Num b) = (if b = 0 then NaN else jflip (0 < b) i)"
| "jmul PInf i = i"
| "jmul NInf i = jneg i"

fun jdiv :: "jsnum \<Rightarrow> jsnum \<Rightarrow> jsnum" where
  "jdiv NaN _ = NaN"
| "jdiv _ NaN = NaN"
| "jdiv (Num a) (Num b) =
     (if b \<noteq> 0 then Num (a / b)
      else if a = 0 then NaN
      else if 0 < a then PInf else NInf)"
| "jdiv (Num a) _ = Num 0"
| "jdiv i (Num b) = jflip (0 \<le> b) i"
| "jdiv _ _ = NaN"

fun jle :: "jsnum \<Rightarrow> jsnum \<Rightarrow> bool" where
  "jle NaN _ = False"
| "jle _ NaN = False"
| "jle (Num a) (Num b) = (a \<le> b)"
| "jle NInf _ = True"
| "jle _ PInf = True"
| "jle _ _ = False"

fun jlt :: "jsnum \<Rightarrow> jsnum \<Rightarrow> bool" where
  "jlt NaN _ = False"
| "jlt _ NaN = False"
| "jlt (Num a) (Num b) = (a < b)"
| "jlt PInf _ = False"
| "jlt _ NInf = False"
| "jlt _ _ = True"

definition jge :: "jsnum \<Rightarrow> jsnum \<Rightarrow> bool" where
  "jge a b = jle b a"

fun jmax :: "jsnum \<Rightarrow> jsnum \<Rightarrow> jsnum" where
  "jmax NaN _ = NaN"
| "jmax _ NaN = NaN"
| "jmax (Num a) (Num b) = Num (max a b)"
| "jmax PInf _ = PInf"
| "jmax _ PInf = PInf"
| "jmax NInf b = b"
| "jmax a NInf = a"

fun jmin :: "jsnum \<Rightarrow> jsnum \<Rightarrow> jsnum" where
  "jmin NaN _ = NaN"
| "jmin _ NaN = NaN"
| "jmin (Num a) (Num b) = Num (min a b)"
| "jmin NInf _ = NInf"
| "jmin _ NInf = NInf"
| "jmin PInf b = b"
| "jmin a PInf = a"

text \<open>\<open>Math.round\<close>: the nearest integer, a tie going up.\<close>

definition round_real :: "real \<Rightarrow> real" where
  "round_real x = of_int \<lfloor>x + 1 / 2\<rfloor>"

fun jround :: "jsnum \<Rightarrow> jsnum" where
  "jround (Num a) = Num (round_real a)"
| "jround i = i"

text \<open>A property read from an object that lacks it is \<open>undefined\<close>, which arithmetic
  turns into \<open>NaN\<close>.\<close>

definition to_number :: "jsnum option \<Rightarrow> jsnum" where
  "to_number v = (case v of None \<Rightarrow> NaN | Some n \<Rightarrow> n)"

subsection \<open>Numbers as text\<close>

fun digits :: "nat \<Rightarrow> string" where
  "digits n = (if n < 10 then [char_of (48 + n)] else digits (n div 10) @ [char_of (48 + n mod 10)])"

declare digits.simps [simp del]

text \<open>An integer-valued number in a template literal (below \<open>10\<^sup>2\<^sup>1\<close> in size,
  where JavaScript still prints plain digits).\<close>

definition integer_text :: "real \<Rightarrow> string" where
  "integer_text x = (if x < 0 then ''-'' else '''') @ digits (nat \<lfloor>\<bar>x\<bar>\<rfloor>)"

text \<open>\<open>x.toFixed(1)\<close>: the integer \<open>n\<close> with \<open>n / 10\<close> nearest to \<open>\<bar>x\<bar>\<close>, the
  larger one on a tie, printed with one decimal; again below \<open>10\<^sup>2\<^sup>1\<close>.\<close>

definition toFixed1 :: "real \<Rightarrow> string" where
  "toFixed1 x =
     (let n = nat \<lfloor>\<bar>x\<bar> * 10 + 1 / 2\<rfloor>
      in (if x < 0 then ''-'' else '''') @ digits (n div 10) @ ''.'' @ digits (n mod 10))"

section \<open>Data\<close>

text \<open>
  The objects of \<open>services/MatchingService.js\<close> as records: the fields the service
  reads or copies, under the source's names. A name carries a prime where this theory
  has the plain name already (a field of another record, or a record's own \<open>make\<close>).
  A field is optional where the code tests for its absence or reads through it inside a
  \<open>try\<close>. What the service writes to the console is not modelled, and each
  \<open>await\<close> is taken in program order.
\<close>

record coordinate =
  latitude :: real
  longitude :: real

record location = coordinate +
  name :: string

record vehicle_info =
  make' :: string
  model :: string
  plateNumber :: string
  color :: string

text \<open>The driver summary carried by a ride (\<open>ride.driver\<close>).\<close>

record driver_summary =
  id' :: string
  name' :: string
  rating :: real
  vehicle' :: vehicle_info

text \<open>
  A ride, as the new request and as an existing ride: the fields the service reads.
  \<open>pool_passengers\<close> may be absent, which the code tests for.
\<close>

record ride =
  ride_id :: string
  user_name :: string
  user_gender :: string
  pickup_location :: location
  destination_location :: location
  estimated_fare :: real
  allow_pooling :: bool
  female_only :: bool
  pool_passengers :: "string list option"
  driver :: driver_summary

record waypoint =
  location :: location
  type' :: string
  passenger :: string

record route_estimate =
  distance :: jsnum
  duration :: jsnum

record route_details = route_estimate +
  distanceText :: "string option"
  durationText :: "string option"

record pooled_route = route_estimate +
  pickupDistance :: real
  pickupTime' :: real
  description :: string
  waypoints :: "waypoint list"

text \<open>The result of \<open>calculateRouteCompatibility\<close>; the object returned from its
  \<open>catch\<close> has only \<open>isCompatible\<close> and \<open>score\<close>.\<close>

record compatibility =
  isCompatible :: bool
  detourDistance :: "jsnum option"
  detourTime :: "jsnum option"
  pickupTime :: "string option"
  routeDescription :: "string option"
  score :: jsnum
  savings :: "real option"

record pool_candidate =
  poolId :: string
  driverId :: string
  driverName :: string
  driverRating :: real
  vehicle :: vehicle_info
  currentPickup :: location
  currentDestination :: location
  currentPassenger :: string
  fareShare :: jsnum
  estimatedPickupTime :: "string option"
  route :: "string option"
  detourDistance' :: "jsnum option"
  detourTime' :: "jsnum option"
  compatibilityScore :: jsnum
  savings' :: "real option"

text \<open>A driver offered for dispatch (\<open>models/Driver.js\<close>): the fields the service
  reads, and the phone number, which is unique per driver.\<close>

record driver_record =
  phone :: string
  status :: string
  location' :: coordinate
  current_ride :: "string option"

record nearby_driver = driver_record +
  distanceToPickup :: real
  estimatedArrival :: real

record assignment =
  driver' :: nearby_driver
  estimatedArrival' :: string
  distance' :: string

text \<open>
  The reply of the routing provider, as deep as \<open>getRouteDetails\<close> reads it:
  \<open>response.data.routes[0].legs[0].distance.value\<close> and so on. Every object on
  the path may be missing; a figure that is present is a number.
\<close>

record leg_measure =
  value' :: "real option"
  text' :: "string option"

record leg =
  leg_distance :: "leg_measure option"
  leg_duration :: "leg_measure option"

record route_json =
  legs :: "leg list option"

record response_data =
  routes :: "route_json list option"

datatype response = Rejected | Response "response_data option"

text \<open>A request to the provider: origin and destination, each latitude and longitude.\<close>

type_synonym request = "(real \<times> real) \<times> (real \<times> real)"

type_synonym provider = "request \<Rightarrow> response"

datatype error = TypeError | AxiosError

record service =
  GOOGLE_MAPS_API_KEY :: "string option"
  MAX_DETOUR_DISTANCE_KM :: real
  MAX_DETOUR_TIME_MINUTES :: real
  MAX_PICKUP_DISTANCE_KM :: real
  MAX_POOL_SIZE :: int

text \<open>The constructor; the key comes from the environment and may be unset.\<close>

definition MatchingService :: "string option \<Rightarrow> service" where
  "MatchingService key =
     \<lparr> GOOGLE_MAPS_API_KEY = key,
       MAX_DETOUR_DISTANCE_KM = 5,
       MAX_DETOUR_TIME_MINUTES = 15,
       MAX_PICKUP_DISTANCE_KM = 3,
       MAX_POOL_SIZE = 4 \<rparr>"

section \<open>Great-circle distance\<close>

definition toRadians :: "real \<Rightarrow> real" where
  "toRadians degrees = degrees * (pi / 180)"

text \<open>\<open>Math.atan2(y, x)\<close> on reals.\<close>

definition atan2 :: "real \<Rightarrow> real \<Rightarrow> real" where
  "atan2 y x =
     (if 0 < x then arctan (y / x)
      else if x < 0 then (if 0 \<le> y then arctan (y / x) + pi else arctan (y / x) - pi)
      else if 0 < y then pi / 2
      else if y < 0 then - (pi / 2)
      else 0)"

text \<open>The haversine term \<open>a\<close> of \<open>calculateDistance\<close>.\<close>

definition haversine_a :: "'a coordinate_scheme \<Rightarrow> 'b coordinate_scheme \<Rightarrow> real" where
  "haversine_a point1 point2 =
     (let dLat = toRadians (latitude point2 - latitude point1);
          dLon = toRadians (longitude point2 - longitude point1);
          lat1 = toRadians (latitude point1);
          lat2 = toRadians (latitude point2)
      in sin (dLat / 2) * sin (dLat / 2) +
         sin (dLon / 2) * sin (dLon / 2) * cos lat1 * cos lat2)"

definition calculateDistance :: "'a coordinate_scheme \<Rightarrow> 'b coordinate_scheme \<Rightarrow> real" where
  "calculateDistance point1 point2 =
     (let R = 6371;
          a = haversine_a point1 point2;
          c = 2 * atan2 (sqrt a) (sqrt (1 - a))
      in R * c)"

section \<open>Route estimates\<close>

text \<open>
  The body of the \<open>try\<close> in \<open>getRouteDetails\<close> once the reply has arrived:
  \<open>Inl\<close> is an exception, \<open>Inr None\<close> is falling out of the \<open>if\<close> without a
  return, \<open>Inr (Some r)\<close> is \<open>return r\<close>.
\<close>

definition provider_route :: "response \<Rightarrow> error + route_details option" where
  "provider_route response =
     (case response of
        Rejected \<Rightarrow> Inl AxiosError
      | Response None \<Rightarrow> Inl TypeError
      | Response (Some data) \<Rightarrow>
          (case routes data of
             None \<Rightarrow> Inr None
           | Some [] \<Rightarrow> Inr None
           | Some (route0 # _) \<Rightarrow>
               (case legs route0 of
                  None \<Rightarrow> Inl TypeError
                | Some [] \<Rightarrow> Inl TypeError
                | Some (leg0 # _) \<Rightarrow>
                    (case leg_distance leg0 of
                       None \<Rightarrow> Inl TypeError
                     | Some legDistance \<Rightarrow>
                         (case leg_duration leg0 of
                            None \<Rightarrow> Inl TypeError
                          | Some legDuration \<Rightarrow>
                              Inr (Some
                                \<lparr> distance = jdiv (to_number (map_option Num (value' legDistance))) (Num 1000),
                                  duration = jdiv (to_number (map_option Num (value' legDuration))) (Num 60),
                                  distanceText = text' legDistance,
                                  durationText = text' legDuration \<rparr>))))))"

definition fallback_route :: "'a coordinate_scheme \<Rightarrow> 'b coordinate_scheme \<Rightarrow> route_details" where
  "fallback_route origin destination =
     (let d = calculateDistance origin destination
      in \<lparr> distance = Num d,
           duration = Num (d * 2),
           distanceText = Some (toFixed1 d @ '' km''),
           durationText = Some (integer_text (round_real (d * 2)) @ '' mins'') \<rparr>)"

text \<open>
  \<open>getRouteDetails\<close> returns its result together with the requests it sent to the
  provider (none or one). The provider is a parameter: any function from requests to
  replies, so within one run equal requests get equal replies. The request is the two
  coordinate pairs; the key and the fixed parameters sent with them are left out.
\<close>

definition getRouteDetails ::
  "service \<Rightarrow> provider \<Rightarrow> 'a coordinate_scheme \<Rightarrow> 'b coordinate_scheme \<Rightarrow> route_details \<times> request list" where
  "getRouteDetails this provider origin destination =
     (let configured = (case GOOGLE_MAPS_API_KEY this of None \<Rightarrow> False | Some key \<Rightarrow> 0 < length key);
          req = ((latitude origin, longitude origin), (latitude destination, longitude destination));
          sent = (if configured then [req] else []);
          tried = (if configured then provider_route (provider req) else Inr None)
      in case tried of
           Inr (Some r) \<Rightarrow> (r, sent)
         | _ \<Rightarrow> (fallback_route origin destination, sent))"

section \<open>Waypoint order\<close>

definition findOptimalWaypointOrder :: "waypoint list \<Rightarrow> error + waypoint list option" where
  "findOptimalWaypointOrder ws =
     (let pickup1 = find (\<lambda>w. passenger w = ''existing'' \<and> type' w = ''pickup'') ws;
          pickup2 = find (\<lambda>w. passenger w = ''new'' \<and> type' w = ''pickup'') ws;
          drop1 = find (\<lambda>w. passenger w = ''existing'' \<and> type' w = ''drop'') ws;
          drop2 = find (\<lambda>w. passenger w = ''new'' \<and> type' w = ''drop'') ws
      in case (pickup1, pickup2, drop1, drop2) of
           (Some pickup1, Some pickup2, Some drop1, Some drop2) \<Rightarrow>
             (let distanceToNewPickup = calculateDistance (location pickup1) (location pickup2);
                  distanceBetweenDrops = calculateDistance (location drop1) (location drop2)
              in if distanceToNewPickup < 2 then
                   (if distanceBetweenDrops < 2
                    then Inr (Some [pickup1, pickup2, drop1, drop2])
                    else Inr (Some [pickup1, pickup2, drop2, drop1]))
                 else
                   (let routeDistance = calculateDistance (location pickup1) (location drop1);
                        detour = calculateDistance (location pickup1) (location pickup2) +
                                 calculateDistance (location pickup2) (location drop1)
                    in if detour - routeDistance < 1
                       then Inr (Some [pickup1, pickup2, drop1, drop2])
                       else Inr None))
         | _ \<Rightarrow> Inl TypeError)"

fun route_loop :: "waypoint list \<Rightarrow> real \<Rightarrow> real" where
  "route_loop (w # w' # ws) totalDistance =
     route_loop (w' # ws) (totalDistance + calculateDistance (location w) (location w'))"
| "route_loop _ totalDistance = totalDistance"

definition calculateTotalRouteDistance :: "waypoint list \<Rightarrow> real" where
  "calculateTotalRouteDistance ws = route_loop ws 0"

fun join :: "string \<Rightarrow> string list \<Rightarrow> string" where
  "join sep [] = []"
| "join sep [x] = x"
| "join sep (x # xs) = x @ sep @ join sep xs"

definition generateRouteDescription :: "waypoint list \<Rightarrow> string" where
  "generateRouteDescription ws =
     (let locations = map (\<lambda>w. name (location w)) ws
      in ''Via '' @ join '', '' (butlast (tl locations)))"

definition pool_waypoints :: "ride \<Rightarrow> ride \<Rightarrow> waypoint list" where
  "pool_waypoints newRide existingRide =
     [ \<lparr> location = pickup_location existingRide, type' = ''pickup'', passenger = ''existing'' \<rparr>,
       \<lparr> location = pickup_location newRide, type' = ''pickup'', passenger = ''new'' \<rparr>,
       \<lparr> location = destination_location existingRide, type' = ''drop'', passenger = ''existing'' \<rparr>,
       \<lparr> location = destination_location newRide, type' = ''drop'', passenger = ''new'' \<rparr> ]"

definition getOptimalPoolRoute :: "ride \<Rightarrow> ride \<Rightarrow> error + pooled_route option" where
  "getOptimalPoolRoute newRide existingRide =
     (case findOptimalWaypointOrder (pool_waypoints newRide existingRide) of
        Inl e \<Rightarrow> Inl e
      | Inr None \<Rightarrow> Inr None
      | Inr (Some optimalOrder) \<Rightarrow>
          (let totalDistance = calculateTotalRouteDistance optimalOrder;
               totalDuration = totalDistance * 2
           in Inr (Some
                \<lparr> distance = Num totalDistance,
                  duration = Num totalDuration,
                  pickupDistance = calculateDistance (pickup_location existingRide) (pickup_location newRide),
                  pickupTime' = 10,
                  description = generateRouteDescription optimalOrder,
                  waypoints = optimalOrder \<rparr>)))"

section \<open>Compatibility, score and fare\<close>

definition calculateCompatibilityScore ::
  "service \<Rightarrow> jsnum \<Rightarrow> jsnum \<Rightarrow> real \<Rightarrow> 'a route_estimate_scheme \<Rightarrow> 'b route_estimate_scheme \<Rightarrow> jsnum" where
  "calculateCompatibilityScore this detourDistance0 detourTime0 pickupDistance0 originalRoute pooledRoute =
     (let score0 = Num 100;
          score1 = jsub score0 (jmul (jdiv detourDistance0 (Num (MAX_DETOUR_DISTANCE_KM this))) (Num 40));
          score2 = jsub score1 (jmul (jdiv detourTime0 (Num (MAX_DETOUR_TIME_MINUTES this))) (Num 30));
          score3 = jsub score2 (jmul (jdiv (Num pickupDistance0) (Num (MAX_PICKUP_DISTANCE_KM this))) (Num 20));
          efficiencyBonus =
            jmax (Num 0)
              (jsub (Num 10)
                 (jmul (jsub (jdiv (distance pooledRoute) (distance originalRoute)) (Num 1)) (Num 50)));
          score4 = jadd score3 efficiencyBonus
      in jmax (Num 0) (jmin (Num 100) (jround score4)))"

definition calculateFareShare :: "ride \<Rightarrow> ride \<Rightarrow> compatibility \<Rightarrow> jsnum" where
  "calculateFareShare newRide existingRide compatibility =
     (let baseFare = estimated_fare newRide;
          poolDiscount = 0.25;
          detourPenalty = jmul (to_number (detourDistance compatibility)) (Num 10);
          finalFare = jround (jadd (Num (baseFare * (1 - poolDiscount))) detourPenalty)
      in jmax finalFare (Num (baseFare * 0.6)))"

definition calculateSavings :: "real \<Rightarrow> real \<Rightarrow> real" where
  "calculateSavings newRideFare existingRideFare =
     (let averageFare = (newRideFare + existingRideFare) / 2;
          pooledFare = averageFare * 0.75
      in round_real (averageFare - pooledFare))"

text \<open>
  The body of the \<open>try\<close> in \<open>calculateRouteCompatibility\<close>, given the solo route
  already fetched. Reading \<open>pooledRoute.distance\<close> from \<open>null\<close> throws.
\<close>

definition compatibility_try :: "service \<Rightarrow> route_details \<Rightarrow> ride \<Rightarrow> ride \<Rightarrow> error + compatibility" where
  "compatibility_try this originalRoute newRide existingRide =
     (case getOptimalPoolRoute newRide existingRide of
        Inl e \<Rightarrow> Inl e
      | Inr None \<Rightarrow> Inl TypeError
      | Inr (Some pooledRoute) \<Rightarrow>
          (let detourDistance0 = jsub (distance pooledRoute) (distance originalRoute);
               detourTime0 = jsub (duration pooledRoute) (duration originalRoute);
               isCompatible0 =
                 (jle detourDistance0 (Num (MAX_DETOUR_DISTANCE_KM this)) \<and>
                  jle detourTime0 (Num (MAX_DETOUR_TIME_MINUTES this)) \<and>
                  pickupDistance pooledRoute \<le> MAX_PICKUP_DISTANCE_KM this);
               score0 = calculateCompatibilityScore this detourDistance0 detourTime0
                          (pickupDistance pooledRoute) originalRoute pooledRoute
           in Inr \<lparr> isCompatible = isCompatible0,
                    detourDistance = Some (jdiv (jround (jmul detourDistance0 (Num 100))) (Num 100)),
                    detourTime = Some (jround detourTime0),
                    pickupTime = Some (integer_text (round_real (pickupTime' pooledRoute)) @ '' mins''),
                    routeDescription = Some (description pooledRoute),
                    score = score0,
                    savings = Some (calculateSavings (estimated_fare newRide) (estimated_fare existingRide)) \<rparr>))"

definition calculateRouteCompatibility ::
  "service \<Rightarrow> provider \<Rightarrow> ride \<Rightarrow> ride \<Rightarrow> compatibility \<times> request list" where
  "calculateRouteCompatibility this provider newRide existingRide =
     (let (originalRoute, sent) =
            getRouteDetails this provider (pickup_location existingRide) (destination_location existingRide)
      in case compatibility_try this originalRoute newRide existingRide of
           Inr result \<Rightarrow> (result, sent)
         | Inl e \<Rightarrow>
             (\<lparr> isCompatible = False, detourDistance = None, detourTime = None, pickupTime = None,
                routeDescription = None, score = Num 0, savings = None \<rparr>, sent))"

section \<open>Sorting\<close>

text \<open>
  \<open>Array.prototype.sort\<close> with a comparison function: the sort is stable, and a
  comparison result of \<open>NaN\<close> counts as \<open>0\<close>. For a consistent comparison function
  the result is the one stable arrangement, which insertion computes: \<open>x\<close> moves
  behind \<open>y\<close> exactly when \<open>comparefn(x, y) > 0\<close>. When some comparisons are
  \<open>NaN\<close> and others are not, the comparison function is not consistent and
  ECMAScript leaves the order to the implementation; the order insertion gives such a
  list is then not the engine's, and nothing below relies on it.
\<close>

fun sort_insert :: "('a \<Rightarrow> 'a \<Rightarrow> jsnum) \<Rightarrow> 'a \<Rightarrow> 'a list \<Rightarrow> 'a list" where
  "sort_insert comparefn x [] = [x]"
| "sort_insert comparefn x (y # ys) =
     (if jlt (Num 0) (comparefn x y) then y # sort_insert comparefn x ys else x # y # ys)"

definition js_sort :: "('a \<Rightarrow> 'a \<Rightarrow> jsnum) \<Rightarrow> 'a list \<Rightarrow> 'a list" where
  "js_sort comparefn xs = foldr (sort_insert comparefn) xs []"

section \<open>Pool matching\<close>

text \<open>The object pushed onto \<open>compatiblePools\<close> for a compatible ride.\<close>

definition pool_entry :: "ride \<Rightarrow> ride \<Rightarrow> compatibility \<Rightarrow> pool_candidate" where
  "pool_entry rideRequest existingRide compatibility =
     \<lparr> poolId = ride_id existingRide,
       driverId = id' (driver existingRide),
       driverName = name' (driver existingRide),
       driverRating = rating (driver existingRide),
       vehicle = vehicle' (driver existingRide),
       currentPickup = pickup_location existingRide,
       currentDestination = destination_location existingRide,
       currentPassenger = user_name existingRide,
       fareShare = calculateFareShare rideRequest existingRide compatibility,
       estimatedPickupTime = pickupTime compatibility,
       route = routeDescription compatibility,
       detourDistance' = detourDistance compatibility,
       detourTime' = detourTime compatibility,
       compatibilityScore = score compatibility,
       savings' = savings compatibility \<rparr>"

text \<open>The loop of \<open>findAvailablePools\<close>, carrying \<open>compatiblePools\<close> and the requests
  sent to the provider so far.\<close>

fun pools_loop ::
  "service \<Rightarrow> provider \<Rightarrow> ride \<Rightarrow> ride list \<Rightarrow> pool_candidate list \<times> request list
     \<Rightarrow> pool_candidate list \<times> request list" where
  "pools_loop this provider rideRequest [] (compatiblePools, sent) = (compatiblePools, sent)"
| "pools_loop this provider rideRequest (existingRide # rest) (compatiblePools, sent) =
     (if \<not> allow_pooling existingRide \<or>
         (case pool_passengers existingRide of
            None \<Rightarrow> False
          | Some ps \<Rightarrow> int (length ps) \<ge> MAX_POOL_SIZE this - 1)
      then pools_loop this provider rideRequest rest (compatiblePools, sent)
      else if female_only existingRide \<and> user_gender rideRequest \<noteq> ''female''
      then pools_loop this provider rideRequest rest (compatiblePools, sent)
      else if female_only rideRequest \<and> user_gender existingRide \<noteq> ''female''
      then pools_loop this provider rideRequest rest (compatiblePools, sent)
      else
        (let (compatibility, sent') = calculateRouteCompatibility this provider rideRequest existingRide
         in if isCompatible compatibility
            then pools_loop this provider rideRequest rest
                   (compatiblePools @ [pool_entry rideRequest existingRide compatibility], sent @ sent')
            else pools_loop this provider rideRequest rest (compatiblePools, sent @ sent')))"

definition findAvailablePools ::
  "service \<Rightarrow> provider \<Rightarrow> ride \<Rightarrow> ride list \<Rightarrow> pool_candidate list \<times> request list" where
  "findAvailablePools this provider rideRequest existingRides =
     (let (compatiblePools, sent) = pools_loop this provider rideRequest existingRides ([], [])
      in (js_sort (\<lambda>a b. jsub (compatibilityScore b) (compatibilityScore a)) compatiblePools, sent))"

section \<open>Driver dispatch\<close>

text \<open>\<open>{...driver, distanceToPickup, estimatedArrival}\<close>: the driver's own fields and
  the two new ones.\<close>

definition nearby_entry :: "driver_record \<Rightarrow> real \<Rightarrow> nearby_driver" where
  "nearby_entry d dist_km =
     \<lparr> phone = phone d, status = status d, location' = location' d, current_ride = current_ride d,
       distanceToPickup = dist_km,
       estimatedArrival = round_real (dist_km * 3) \<rparr>"

fun drivers_loop :: "ride \<Rightarrow> driver_record list \<Rightarrow> nearby_driver list \<Rightarrow> nearby_driver list" where
  "drivers_loop rideRequest [] nearbyDrivers = nearbyDrivers"
| "drivers_loop rideRequest (d # rest) nearbyDrivers =
     (if status d \<noteq> ''online'' \<or> current_ride d \<noteq> None
      then drivers_loop rideRequest rest nearbyDrivers
      else
        (let dist_km = calculateDistance (pickup_location rideRequest) (location' d)
         in if dist_km \<le> 10
            then drivers_loop rideRequest rest (nearbyDrivers @ [nearby_entry d dist_km])
            else drivers_loop rideRequest rest nearbyDrivers))"

definition findAvailableDrivers :: "ride \<Rightarrow> driver_record list \<Rightarrow> nearby_driver list" where
  "findAvailableDrivers rideRequest availableDrivers =
     js_sort (\<lambda>a b. Num (distanceToPickup a - distanceToPickup b))
       (drivers_loop rideRequest availableDrivers [])"

definition assignOptimalDriver :: "ride \<Rightarrow> driver_record list \<Rightarrow> assignment option" where
  "assignOptimalDriver rideRequest availableDrivers =
     (case findAvailableDrivers rideRequest availableDrivers of
        [] \<Rightarrow> None
      | selectedDriver # _ \<Rightarrow>
          Some \<lparr> driver' = selectedDriver,
                 estimatedArrival' = integer_text (estimatedArrival selectedDriver) @ '' minutes'',
                 distance' = toFixed1 (distanceToPickup selectedDriver) @ '' km away'' \<rparr>)"

section \<open>Notions used to state the properties\<close>


text \<open>
  The waypoint sequencer as the specification words it, on the four waypoints of two
  trips: \<open>None\<close> is "no feasible ordering".
\<close>

definition sequencer_spec :: "waypoint \<Rightarrow> waypoint \<Rightarrow> waypoint \<Rightarrow> waypoint \<Rightarrow> waypoint list option" where
  "sequencer_spec existingPickup newPickup existingDrop newDrop =
     (let pickupGap = calculateDistance (location existingPickup) (location newPickup);
          dropGap = calculateDistance (location existingDrop) (location newDrop)
      in if pickupGap < 2 then
           (if dropGap < 2
            then Some [existingPickup, newPickup, existingDrop, newDrop]
            else Some [existingPickup, newPickup, newDrop, existingDrop])
         else
           (let direct = calculateDistance (location existingPickup) (location existingDrop);
                detour = calculateDistance (location existingPickup) (location newPickup) +
                         calculateDistance (location newPickup) (location existingDrop)
            in if detour - direct < 1
               then Some [existingPickup, newPickup, existingDrop, newDrop]
               else None))"

text \<open>The three tests at the head of the loop of \<open>findAvailablePools\<close> that skip a ride.\<close>

definition skipped :: "service \<Rightarrow> ride \<Rightarrow> ride \<Rightarrow> bool" where
  "skipped this rideRequest existingRide \<longleftrightarrow>
     \<not> allow_pooling existingRide \<or>
     (case pool_passengers existingRide of
        None \<Rightarrow> False
      | Some ps \<Rightarrow> int (length ps) \<ge> MAX_POOL_SIZE this - 1) \<or>
     (female_only existingRide \<and> user_gender rideRequest \<noteq> ''female'') \<or>
     (female_only rideRequest \<and> user_gender existingRide \<noteq> ''female'')"

text \<open>What one turn of that loop adds: the candidates pushed and the requests sent.\<close>

definition pool_step :: "service \<Rightarrow> provider \<Rightarrow> ride \<Rightarrow> ride \<Rightarrow> pool_candidate list \<times> request list" where
  "pool_step this provider rideRequest existingRide =
     (if skipped this rideRequest existingRide then ([], [])
      else
        (let (compatibility, sent') = calculateRouteCompatibility this provider rideRequest existingRide
         in (if isCompatible compatibility then [pool_entry rideRequest existingRide compatibility] else [],
             sent')))"

text \<open>The test a driver passes to be offered: online, no current ride, within 10 km.\<close>

definition available :: "ride \<Rightarrow> driver_record \<Rightarrow> bool" where
  "available rideRequest d \<longleftrightarrow>
     status d = ''online'' \<and> current_ride d = None \<and>
     calculateDistance (pickup_location rideRequest) (location' d) \<le> 10"

section \<open>Sample data\<close>

text \<open>Two points of the equator half the globe apart, and trips between them.\<close>

definition point_A :: location where
  "point_A = \<lparr> latitude = 0, longitude = 0, name = ''A'' \<rparr>"

definition point_B :: location where
  "point_B = \<lparr> latitude = 0, longitude = 180, name = ''B'' \<rparr>"

definition sample_driver :: driver_summary where
  "sample_driver =
     \<lparr> id' = ''d1'', name' = ''Asha'', rating = 5,
       vehicle' = \<lparr> make' = ''Maruti'', model = ''Dzire'', plateNumber = ''KA01'', color = ''white'' \<rparr> \<rparr>"

definition trip :: "location \<Rightarrow> location \<Rightarrow> ride" where
  "trip origin destination =
     \<lparr> ride_id = ''r1'', user_name = ''Ravi'', user_gender = ''male'',
       pickup_location = origin, destination_location = destination,
       estimated_fare = 300, allow_pooling = True, female_only = False,
       pool_passengers = Some [], driver = sample_driver \<rparr>"

definition pooled_A :: pooled_route where
  "pooled_A =
     \<lparr> distance = Num 0, duration = Num 0, pickupDistance = 0, pickupTime' = 10,
       description = ''Via A, A'',
       waypoints =
         [ \<lparr> location = point_A, type' = ''pickup'', passenger = ''existing'' \<rparr>,
           \<lparr> location = point_A, type' = ''pickup'', passenger = ''new'' \<rparr>,
           \<lparr> location = point_A, type' = ''drop'', passenger = ''existing'' \<rparr>,
           \<lparr> location = point_A, type' = ''drop'', passenger = ''new'' \<rparr> ] \<rparr>"

text \<open>A ride whose pool is full, a provider reply whose first leg lacks its figures, and
  a cheap request with a compatibility result of 3 km detour.\<close>

definition full_trip :: ride where
  "full_trip = (trip point_A point_A) \<lparr> ride_id := ''r2'', pool_passengers := Some [''u1'', ''u2'', ''u3''] \<rparr>"

definition reply_without_figures :: response where
  "reply_without_figures =
     Response (Some \<lparr> routes = Some
       [\<lparr> legs = Some
           [\<lparr> leg_distance = Some \<lparr> value' = None, text' = Some ''5 km'' \<rparr>,
              leg_duration = Some \<lparr> value' = None, text' = Some ''10 mins'' \<rparr> \<rparr>] \<rparr>] \<rparr>)"

definition cheap_request :: ride where
  "cheap_request = (trip point_A point_A) \<lparr> estimated_fare := 100 \<rparr>"

definition detour_3 :: compatibility where
  "detour_3 =
     \<lparr> isCompatible = True, detourDistance = Some (Num 3), detourTime = Some (Num 6),
       pickupTime = Some ''10 mins'', routeDescription = Some ''Via A, A'', score = Num 58,
       savings = Some 50 \<rparr>"

text \<open>Four drivers: one half the globe away, one on a ride, and two free ones on the
  equator about 0.19 km and 0.38 km east of the first sample point.\<close>

definition driver_far :: driver_record where
  "driver_far =
     \<lparr> phone = ''+912'', status = ''online'', location' = \<lparr> latitude = 0, longitude = 180 \<rparr>,
       current_ride = None \<rparr>"

definition driver_busy :: driver_record where
  "driver_busy =
     \<lparr> phone = ''+913'', status = ''online'', location' = \<lparr> latitude = 0, longitude = 0 \<rparr>,
       current_ride = Some ''r9'' \<rparr>"

definition driver_close :: driver_record where
  "driver_close =
     \<lparr> phone = ''+914'', status = ''online'',
       location' = \<lparr> latitude = 0, longitude = 10.8 / 6371 \<rparr>, current_ride = None \<rparr>"

definition driver_mid :: driver_record where
  "driver_mid =
     \<lparr> phone = ''+915'', status = ''online'',
       location' = \<lparr> latitude = 0, longitude = 21.6 / 6371 \<rparr>, current_ride = None \<rparr>"







definition second_trip :: ride where
  "second_trip = (trip point_A point_A) \<lparr> ride_id := ''r3'' \<rparr>"

section \<open>Facts about the great-circle distance\<close>

text \<open>
  In exact arithmetic the haversine term lies in \<open>[0, 1]\<close> for all real
  arguments, in range or not, so both square roots of \<open>calculateDistance\<close> are
  taken of non-negative numbers, and the distance is symmetric and lies between 0 and
  \<open>6371 \<times> \<pi>\<close>. These are facts of the formula over the reals; in double
  precision the term can round to just outside the interval and the order of the
  arguments can change the last digit.
\<close>

lemma sin_half_sq: "sin (x / 2) * sin (x / 2) = (1 - cos x) / (2::real)"
proof -
  have "cos x = cos (2 * (x / 2))" by simp
  also have "\<dots> = 1 - 2 * (sin (x / 2))\<^sup>2" by (rule cos_double_sin)
  finally show ?thesis by (simp add: power2_eq_square)
qed

lemma haversine_a_alt:
  "haversine_a p q =
     (1 - cos (toRadians (latitude q) - toRadians (latitude p))) / 2 +
     (1 - cos (toRadians (longitude q - longitude p))) / 2 *
       (cos (toRadians (latitude p)) * cos (toRadians (latitude q)))"
proof -
  have d: "toRadians (latitude q - latitude p) = toRadians (latitude q) - toRadians (latitude p)"
    by (simp add: toRadians_def left_diff_distrib)
  show ?thesis
    unfolding haversine_a_def Let_def sin_half_sq d by (simp add: algebra_simps)
qed

lemma convex_bounds:
  fixes u v s :: real
  assumes "0 \<le> s" "s \<le> 1" "0 \<le> u" "u \<le> 1" "0 \<le> u + v" "u + v \<le> 1"
  shows "0 \<le> u + s * v \<and> u + s * v \<le> 1"
proof -
  have e: "u + s * v = (1 - s) * u + s * (u + v)" by (simp add: algebra_simps)
  have "0 \<le> (1 - s) * u + s * (u + v)" using assms by simp
  moreover have "(1 - s) * u + s * (u + v) \<le> (1 - s) * 1 + s * 1"
    using assms by (intro add_mono mult_left_mono) auto
  ultimately show ?thesis unfolding e by simp
qed

lemma haversine_a_range: "0 \<le> haversine_a p q \<and> haversine_a p q \<le> 1"
proof -
  define f1 where "f1 = toRadians (latitude p)"
  define f2 where "f2 = toRadians (latitude q)"
  define l where "l = toRadians (longitude q - longitude p)"
  define u where "u = (1 - cos (f2 - f1)) / 2"
  define s where "s = (1 - cos l) / 2"
  define v where "v = cos f1 * cos f2"
  have a: "haversine_a p q = u + s * v"
    unfolding haversine_a_alt u_def s_def v_def f1_def f2_def l_def by simp
  have s: "0 \<le> s" "s \<le> 1" unfolding s_def using cos_le_one[of l] cos_ge_minus_one[of l] by auto
  have u: "0 \<le> u" "u \<le> 1" unfolding u_def using cos_le_one[of "f2 - f1"] cos_ge_minus_one[of "f2 - f1"] by auto
  have uv: "u + v = (1 + cos (f1 + f2)) / 2"
    unfolding u_def v_def by (simp add: cos_add cos_diff field_simps)
  have "- 1 \<le> cos (f1 + f2)" "cos (f1 + f2) \<le> 1" by simp_all
  then have "0 \<le> 1 + cos (f1 + f2)" "1 + cos (f1 + f2) \<le> 2" by linarith+
  then have "0 \<le> (1 + cos (f1 + f2)) / 2" "(1 + cos (f1 + f2)) / 2 \<le> 1" by simp_all
  then have uv': "0 \<le> u + v" "u + v \<le> 1"
    unfolding uv .
  show ?thesis unfolding a using convex_bounds[OF s u uv'] .
qed

lemma atan2_nonneg_range:
  assumes "0 \<le> y" "0 \<le> x"
  shows "0 \<le> atan2 y x \<and> atan2 y x \<le> pi / 2"
proof (cases "0 < x")
  case True
  then have "0 \<le> y / x" using assms by simp
  then have "0 \<le> arctan (y / x)" by (simp only: zero_le_arctan_iff)
  moreover have "arctan (y / x) < pi / 2" by (rule arctan_ubound)
  ultimately show ?thesis using True by (simp add: atan2_def)
next
  case False
  then have "x = 0" using assms by simp
  then show ?thesis using assms by (simp add: atan2_def)
qed

lemma haversine_a_sym: "haversine_a p q = haversine_a q p"
proof -
  have "longitude q - longitude p = - (longitude p - longitude q)" by simp
  then have "toRadians (longitude q - longitude p) = - toRadians (longitude p - longitude q)"
    unfolding toRadians_def by (simp only: mult_minus_left)
  then have "cos (toRadians (longitude q - longitude p)) = cos (toRadians (longitude p - longitude q))"
    by (simp only: cos_minus)
  moreover have "cos (toRadians (latitude q) - toRadians (latitude p)) =
                 cos (toRadians (latitude p) - toRadians (latitude q))"
    using cos_minus[of "toRadians (latitude p) - toRadians (latitude q)"] by simp
  ultimately show ?thesis unfolding haversine_a_alt by (simp add: mult.commute)
qed

lemma calculateDistance_sym: "calculateDistance p q = calculateDistance q p"
  unfolding calculateDistance_def haversine_a_sym[of p q] ..

lemma calculateDistance_range:
  "0 \<le> calculateDistance p q \<and> calculateDistance p q \<le> 6371 * pi"
proof -
  have "0 \<le> sqrt (haversine_a p q)" "0 \<le> sqrt (1 - haversine_a p q)"
    using haversine_a_range[of p q] by simp_all
  from atan2_nonneg_range[OF this] show ?thesis
    by (simp add: calculateDistance_def Let_def)
qed

lemma haversine_a_self: "haversine_a p p = 0"
  by (simp add: haversine_a_def toRadians_def)

lemma calculateDistance_self: "calculateDistance p p = 0"
  by (simp add: calculateDistance_def haversine_a_self atan2_def)










section \<open>Facts about the loops and the sort\<close>

lemma pools_loop_step:
  "pools_loop this provider rideRequest rides (acc, sent) =
     (acc @ concat (map (\<lambda>r. fst (pool_step this provider rideRequest r)) rides),
      sent @ concat (map (\<lambda>r. snd (pool_step this provider rideRequest r)) rides))"
proof (induction rides arbitrary: acc sent)
  case Nil
  show ?case by simp
next
  case (Cons r rides)
  show ?case
    by (simp add: Cons.IH pool_step_def skipped_def Let_def split: prod.splits)
qed

lemma drivers_loop_filter:
  "drivers_loop rideRequest ds acc =
     acc @ map (\<lambda>d. nearby_entry d (calculateDistance (pickup_location rideRequest) (location' d)))
             (filter (available rideRequest) ds)"
  by (induction ds arbitrary: acc) (auto simp: available_def Let_def)

subsection \<open>Sorting\<close>

lemma set_sort_insert: "set (sort_insert c x ys) = insert x (set ys)"
  by (induction ys) auto

lemma set_js_sort: "set (js_sort c xs) = set xs"
  by (induction xs) (simp_all add: js_sort_def set_sort_insert)

lemma length_sort_insert: "length (sort_insert c x ys) = Suc (length ys)"
  by (induction ys) auto

lemma length_js_sort: "length (js_sort c xs) = length xs"
  by (induction xs) (simp_all add: js_sort_def length_sort_insert)

lemma sort_insert_key:
  fixes k :: "'a \<Rightarrow> real"
  assumes "\<forall>y\<in>set ys. jlt (Num 0) (c x y) = (k y < k x)"
  shows "sort_insert c x ys = insort_key k x ys"
  using assms by (induction ys) (auto simp: not_le)

lemma js_sort_key:
  fixes k :: "'a \<Rightarrow> real"
  assumes "\<forall>x\<in>set xs. \<forall>y\<in>set xs. jlt (Num 0) (c x y) = (k y < k x)"
  shows "js_sort c xs = sort_key k xs"
  using assms
proof (induction xs)
  case Nil
  show ?case by (simp add: js_sort_def)
next
  case (Cons x xs)
  have ih: "js_sort c xs = sort_key k xs" using Cons by simp
  have "\<forall>y\<in>set (sort_key k xs). jlt (Num 0) (c x y) = (k y < k x)"
    using Cons.prems by simp
  then have "sort_insert c x (sort_key k xs) = insort_key k x (sort_key k xs)"
    by (rule sort_insert_key)
  then show ?case using ih by (simp add: js_sort_def)
qed


section \<open>The waypoint sequencer\<close>

lemma waypoint_order_pool:
  "findOptimalWaypointOrder (pool_waypoints newRide existingRide) =
     Inr (sequencer_spec
            \<lparr> location = pickup_location existingRide, type' = ''pickup'', passenger = ''existing'' \<rparr>
            \<lparr> location = pickup_location newRide, type' = ''pickup'', passenger = ''new'' \<rparr>
            \<lparr> location = destination_location existingRide, type' = ''drop'', passenger = ''existing'' \<rparr>
            \<lparr> location = destination_location newRide, type' = ''drop'', passenger = ''new'' \<rparr>)"
  by (simp add: findOptimalWaypointOrder_def pool_waypoints_def sequencer_spec_def Let_def)

text \<open>
  Claim C7. For every pair of trips, \<open>findOptimalWaypointOrder\<close>, run on the four
  waypoints \<open>getOptimalPoolRoute\<close> builds, throws nothing and returns what the
  specification's algorithm returns: with the pickups less than 2 km apart, the order
  existing pickup, new pickup, existing drop, new drop when the drops are less than
  2 km apart and existing pickup, new pickup, new drop, existing drop otherwise; with
  the pickups 2 km or more apart, the first order when going by the new pickup adds
  less than 1 km to the existing trip, and no ordering otherwise.
\<close>

theorem C7_waypoint_sequencer:
  "findOptimalWaypointOrder (pool_waypoints newRide existingRide) =
     Inr (sequencer_spec
            \<lparr> location = pickup_location existingRide, type' = ''pickup'', passenger = ''existing'' \<rparr>
            \<lparr> location = pickup_location newRide, type' = ''pickup'', passenger = ''new'' \<rparr>
            \<lparr> location = destination_location existingRide, type' = ''drop'', passenger = ''existing'' \<rparr>
            \<lparr> location = destination_location newRide, type' = ''drop'', passenger = ''new'' \<rparr>)"
proof -
  let ?ws = "pool_waypoints newRide existingRide"
  have p1: "find (\<lambda>w. passenger w = ''existing'' \<and> type' w = ''pickup'') ?ws = Some (?ws ! 0)"
    by (simp add: pool_waypoints_def)
  have p2: "find (\<lambda>w. passenger w = ''new'' \<and> type' w = ''pickup'') ?ws = Some (?ws ! 1)"
    by (simp add: pool_waypoints_def)
  have d1: "find (\<lambda>w. passenger w = ''existing'' \<and> type' w = ''drop'') ?ws = Some (?ws ! 2)"
    by (simp add: pool_waypoints_def)
  have d2: "find (\<lambda>w. passenger w = ''new'' \<and> type' w = ''drop'') ?ws = Some (?ws ! 3)"
    by (simp add: pool_waypoints_def)
  show ?thesis
    unfolding findOptimalWaypointOrder_def p1 p2 d1 d2
    by (simp add: pool_waypoints_def sequencer_spec_def Let_def)
qed

section \<open>Facts about the sample data\<close>

lemma trip_fields:
  "pickup_location (trip a b) = a" "destination_location (trip a b) = b"
  "allow_pooling (trip a b)" "\<not> female_only (trip a b)" "pool_passengers (trip a b) = Some []"
  "estimated_fare (trip a b) = 300" "user_gender (trip a b) = ''male''"
  by (simp_all add: trip_def)

lemma distance_A_B: "calculateDistance point_A point_B = 6371 * pi"
  by (simp add: calculateDistance_def haversine_a_def toRadians_def atan2_def point_A_def point_B_def)

lemma distance_B_A: "calculateDistance point_B point_A = 6371 * pi"
  by (simp only: calculateDistance_sym[of point_B point_A] distance_A_B)

lemma pi_big: "2 \<le> 6371 * pi" "1 \<le> 6371 * pi + 6371 * pi"
  using pi_ge_two by simp_all

lemma no_order_A_B:
  "findOptimalWaypointOrder (pool_waypoints (trip point_B point_B) (trip point_A point_A)) = Inr None"
  using pi_big
  by (simp add: waypoint_order_pool sequencer_spec_def trip_fields distance_A_B distance_B_A
        calculateDistance_self Let_def)

lemma pooled_route_A_A:
  "getOptimalPoolRoute (trip point_A point_A) (trip point_A point_A) = Inr (Some pooled_A)"
  by (simp add: getOptimalPoolRoute_def waypoint_order_pool sequencer_spec_def trip_fields
        calculateDistance_self calculateTotalRouteDistance_def generateRouteDescription_def
        pooled_A_def Let_def)
     (simp add: point_A_def)

lemma fallback_A_A:
  "fst (getRouteDetails (MatchingService None) provider point_A point_A) = fallback_route point_A point_A"
  by (simp add: getRouteDetails_def MatchingService_def)

section \<open>Route compatibility\<close>

lemma getOptimalPoolRoute_not_thrown: "getOptimalPoolRoute newRide existingRide \<noteq> Inl e"
  by (simp add: getOptimalPoolRoute_def waypoint_order_pool Let_def split: option.splits)

lemma getOptimalPoolRoute_fields:
  assumes "getOptimalPoolRoute newRide existingRide = Inr (Some pooledRoute)"
  shows "distance pooledRoute = Num (calculateTotalRouteDistance (waypoints pooledRoute))"
    and "duration pooledRoute = Num (calculateTotalRouteDistance (waypoints pooledRoute) * 2)"
    and "pickupDistance pooledRoute =
           calculateDistance (pickup_location existingRide) (pickup_location newRide)"
    and "findOptimalWaypointOrder (pool_waypoints newRide existingRide) = Inr (Some (waypoints pooledRoute))"
  using assms
  by (auto simp: getOptimalPoolRoute_def Let_def split: sum.splits option.splits)

text \<open>
  Claim C1. For every candidate pair for which a combined route exists (the waypoint
  sequencer returns an ordering), the result of \<open>calculateRouteCompatibility\<close> has
  \<open>isCompatible\<close> true exactly when the detour distance is at most 5 km, the detour
  time at most 15 minutes and the pickup distance at most 3 km, where the detour
  distance is the combined route's distance minus the solo route's, the detour time
  the combined duration minus the solo duration, and the pickup distance the haversine
  distance between the two pickup points. The comparisons are JavaScript's: one with
  \<open>NaN\<close> is false.
\<close>

theorem C1_isCompatible_iff_thresholds:
  assumes "getOptimalPoolRoute newRide existingRide = Inr (Some pooledRoute)"
  shows "(let this = MatchingService key;
              originalRoute = fst (getRouteDetails this provider
                                (pickup_location existingRide) (destination_location existingRide));
              detourDistance0 = jsub (distance pooledRoute) (distance originalRoute);
              detourTime0 = jsub (duration pooledRoute) (duration originalRoute)
          in isCompatible (fst (calculateRouteCompatibility this provider newRide existingRide)) \<longleftrightarrow>
               jle detourDistance0 (Num 5) \<and> jle detourTime0 (Num 15) \<and> pickupDistance pooledRoute \<le> 3)
         \<and> distance pooledRoute = Num (calculateTotalRouteDistance (waypoints pooledRoute))
         \<and> duration pooledRoute = Num (calculateTotalRouteDistance (waypoints pooledRoute) * 2)
         \<and> pickupDistance pooledRoute =
               calculateDistance (pickup_location existingRide) (pickup_location newRide)"
proof -
  have "isCompatible (fst (calculateRouteCompatibility (MatchingService key) provider newRide existingRide)) \<longleftrightarrow>
        jle (jsub (distance pooledRoute)
               (distance (fst (getRouteDetails (MatchingService key) provider
                                 (pickup_location existingRide) (destination_location existingRide)))))
            (Num 5) \<and>
        jle (jsub (duration pooledRoute)
               (duration (fst (getRouteDetails (MatchingService key) provider
                                 (pickup_location existingRide) (destination_location existingRide)))))
            (Num 15) \<and>
        pickupDistance pooledRoute \<le> 3"
    using assms
    by (simp add: calculateRouteCompatibility_def compatibility_try_def Let_def MatchingService_def
             split: prod.splits)
  then show ?thesis
    using getOptimalPoolRoute_fields(1-3)[OF assms] by (simp add: Let_def)
qed


theorem C1_witness:
  "getOptimalPoolRoute (trip point_A point_A) (trip point_A point_A) = Inr (Some pooled_A)
   \<and> isCompatible (fst (calculateRouteCompatibility (MatchingService None) (\<lambda>_. Rejected)
                          (trip point_A point_A) (trip point_A point_A)))
   \<and> pickupDistance pooled_A = calculateDistance point_A point_A"
  using C1_isCompatible_iff_thresholds[OF pooled_route_A_A, of None "\<lambda>_. Rejected"]
  by (simp add: pooled_route_A_A Let_def trip_fields fallback_A_A fallback_route_def
        calculateDistance_self jsub_def pooled_A_def)


section \<open>Candidates without a feasible ordering\<close>

lemma findAvailablePools_steps:
  "findAvailablePools this provider rideRequest rides =
     (js_sort (\<lambda>a b. jsub (compatibilityScore b) (compatibilityScore a))
        (concat (map (\<lambda>r. fst (pool_step this provider rideRequest r)) rides)),
      concat (map (\<lambda>r. snd (pool_step this provider rideRequest r)) rides))"
  by (simp add: findAvailablePools_def pools_loop_step)

lemma pool_step_no_order:
  assumes "findOptimalWaypointOrder (pool_waypoints rideRequest existingRide) = Inr None"
  shows "fst (pool_step this provider rideRequest existingRide) = []"
  using assms
  by (simp add: pool_step_def calculateRouteCompatibility_def compatibility_try_def
        getOptimalPoolRoute_def Let_def split: prod.splits)

text \<open>
  Claim C10. For every candidate pair for which \<open>findOptimalWaypointOrder\<close> yields
  no ordering, \<open>getOptimalPoolRoute\<close> returns \<open>null\<close>, the body of the \<open>try\<close> in
  \<open>calculateRouteCompatibility\<close> throws a \<open>TypeError\<close> whatever the solo route
  was, the function returns exactly \<open>{ isCompatible: false, score: 0 }\<close>, and the
  candidates \<open>findAvailablePools\<close> returns are those it returns without that ride
  in the list.
\<close>

theorem C10_no_ordering_is_caught:
  assumes "findOptimalWaypointOrder (pool_waypoints rideRequest existingRide) = Inr None"
  shows "getOptimalPoolRoute rideRequest existingRide = Inr None
       \<and> compatibility_try this originalRoute rideRequest existingRide = Inl TypeError
       \<and> fst (calculateRouteCompatibility this provider rideRequest existingRide) =
           \<lparr> isCompatible = False, detourDistance = None, detourTime = None, pickupTime = None,
             routeDescription = None, score = Num 0, savings = None \<rparr>
       \<and> fst (findAvailablePools this provider rideRequest (before @ existingRide # after)) =
           fst (findAvailablePools this provider rideRequest (before @ after))"
proof -
  have g: "getOptimalPoolRoute rideRequest existingRide = Inr None"
    using assms by (simp add: getOptimalPoolRoute_def)
  have t: "compatibility_try this originalRoute rideRequest existingRide = Inl TypeError"
    for originalRoute
    by (simp add: compatibility_try_def g)
  have c: "fst (calculateRouteCompatibility this provider rideRequest existingRide) =
           \<lparr> isCompatible = False, detourDistance = None, detourTime = None, pickupTime = None,
             routeDescription = None, score = Num 0, savings = None \<rparr>"
    by (simp add: calculateRouteCompatibility_def t split: prod.splits)
  have f: "fst (findAvailablePools this provider rideRequest (before @ existingRide # after)) =
           fst (findAvailablePools this provider rideRequest (before @ after))"
    by (simp add: findAvailablePools_steps pool_step_no_order[OF assms])
  show ?thesis using g t c f by simp
qed


theorem C10_witness:
  "findOptimalWaypointOrder (pool_waypoints (trip point_B point_B) (trip point_A point_A)) = Inr None
   \<and> getOptimalPoolRoute (trip point_B point_B) (trip point_A point_A) = Inr None
   \<and> isCompatible (fst (calculateRouteCompatibility (MatchingService None) (\<lambda>_. Rejected)
                          (trip point_B point_B) (trip point_A point_A))) = False
   \<and> fst (findAvailablePools (MatchingService None) (\<lambda>_. Rejected) (trip point_B point_B)
            [trip point_A point_A]) = []"
  using C10_no_ordering_is_caught[OF no_order_A_B, of "MatchingService None"
      "fallback_route point_A point_A" "\<lambda>_. Rejected" "[]" "[]"]
    no_order_A_B
  by (simp add: findAvailablePools_steps js_sort_def)



section \<open>Eligibility of existing rides\<close>

lemma pool_step_member:
  assumes "c \<in> set (fst (pool_step this provider rideRequest r))"
  shows "\<not> skipped this rideRequest r
       \<and> isCompatible (fst (calculateRouteCompatibility this provider rideRequest r))
       \<and> c = pool_entry rideRequest r (fst (calculateRouteCompatibility this provider rideRequest r))"
  using assms by (auto simp: pool_step_def Let_def split: if_splits prod.splits)

lemma fst_pool_step:
  "fst (pool_step this provider rideRequest r) =
     (if \<not> skipped this rideRequest r
         \<and> isCompatible (fst (calculateRouteCompatibility this provider rideRequest r))
      then [pool_entry rideRequest r (fst (calculateRouteCompatibility this provider rideRequest r))]
      else [])"
  by (simp add: pool_step_def Let_def split: prod.splits)

lemma pool_step_full:
  assumes "pool_passengers r = Some ps" "3 \<le> length ps"
  shows "pool_step (MatchingService key) provider rideRequest r = ([], [])"
  using assms by (simp add: pool_step_def skipped_def MatchingService_def)

lemma concat_map_filter_empty:
  assumes "\<And>x. x \<in> set xs \<Longrightarrow> \<not> P x \<Longrightarrow> f x = []"
  shows "concat (map f (filter P xs)) = concat (map f xs)"
  using assms by (induction xs) auto

text \<open>
  Claim C3. For every request and every list of candidate rides, each candidate
  \<open>findAvailablePools\<close> returns was built from a ride of the list whose
  \<open>pool_passengers\<close> does not hold 3 (\<open>MAX_POOL_SIZE - 1\<close>) or more passengers; and a
  ride that does is skipped before anything is computed for it: the result, the requests
  sent to the provider included, is the result on the list without such rides.
\<close>

theorem C3_full_pool_never_offered:
  "(\<forall>c \<in> set (fst (findAvailablePools (MatchingService key) provider rideRequest rides)).
      \<exists>r \<in> set rides.
        c = pool_entry rideRequest r
              (fst (calculateRouteCompatibility (MatchingService key) provider rideRequest r))
        \<and> poolId c = ride_id r
        \<and> \<not> (\<exists>ps. pool_passengers r = Some ps \<and> 3 \<le> length ps))
   \<and> findAvailablePools (MatchingService key) provider rideRequest rides =
       findAvailablePools (MatchingService key) provider rideRequest
         (filter (\<lambda>r. \<not> (\<exists>ps. pool_passengers r = Some ps \<and> 3 \<le> length ps)) rides)"
proof (intro conjI ballI)
  fix c
  assume "c \<in> set (fst (findAvailablePools (MatchingService key) provider rideRequest rides))"
  then obtain r where r: "r \<in> set rides"
      and c: "c \<in> set (fst (pool_step (MatchingService key) provider rideRequest r))"
    by (auto simp: findAvailablePools_steps set_js_sort)
  from pool_step_member[OF c]
  have e: "c = pool_entry rideRequest r
                 (fst (calculateRouteCompatibility (MatchingService key) provider rideRequest r))"
    by simp
  have "\<not> (\<exists>ps. pool_passengers r = Some ps \<and> 3 \<le> length ps)"
  proof
    assume "\<exists>ps. pool_passengers r = Some ps \<and> 3 \<le> length ps"
    then obtain ps where "pool_passengers r = Some ps" "3 \<le> length ps" by blast
    from pool_step_full[OF this] c show False by simp
  qed
  moreover have "poolId c = ride_id r" by (simp add: e pool_entry_def)
  ultimately show "\<exists>r \<in> set rides.
        c = pool_entry rideRequest r
              (fst (calculateRouteCompatibility (MatchingService key) provider rideRequest r))
        \<and> poolId c = ride_id r
        \<and> \<not> (\<exists>ps. pool_passengers r = Some ps \<and> 3 \<le> length ps)"
    using r e by blast
next
  let ?P = "\<lambda>r. \<not> (\<exists>ps. pool_passengers r = Some ps \<and> 3 \<le> length ps)"
  have a: "concat (map (\<lambda>r. fst (pool_step (MatchingService key) provider rideRequest r)) (filter ?P rides)) =
           concat (map (\<lambda>r. fst (pool_step (MatchingService key) provider rideRequest r)) rides)"
    by (rule concat_map_filter_empty) (auto simp: pool_step_full)
  have b: "concat (map (\<lambda>r. snd (pool_step (MatchingService key) provider rideRequest r)) (filter ?P rides)) =
           concat (map (\<lambda>r. snd (pool_step (MatchingService key) provider rideRequest r)) rides)"
    by (rule concat_map_filter_empty) (auto simp: pool_step_full)
  show "findAvailablePools (MatchingService key) provider rideRequest rides =
        findAvailablePools (MatchingService key) provider rideRequest (filter ?P rides)"
    by (simp only: findAvailablePools_steps a b)
qed


lemma compatible_A_A:
  "isCompatible (fst (calculateRouteCompatibility (MatchingService None) provider
                        (trip point_A point_A) (trip point_A point_A)))"
  by (simp add: calculateRouteCompatibility_def compatibility_try_def pooled_route_A_A
        getRouteDetails_def fallback_route_def calculateDistance_self trip_fields
        MatchingService_def pooled_A_def jsub_def Let_def)

lemma not_skipped_A_A: "\<not> skipped (MatchingService key) (trip point_A point_A) (trip point_A point_A)"
  by (simp add: skipped_def trip_fields MatchingService_def)

lemma js_sort_single: "js_sort c [x] = [x]"
  by (simp add: js_sort_def)

theorem C3_witness:
  "pool_passengers full_trip = Some [''u1'', ''u2'', ''u3'']
   \<and> map poolId (fst (findAvailablePools (MatchingService None) (\<lambda>_. Rejected) (trip point_A point_A)
                         [full_trip, trip point_A point_A])) = [''r1'']"
proof -
  have f: "filter (\<lambda>r. \<not> (\<exists>ps. pool_passengers r = Some ps \<and> 3 \<le> length ps))
             [full_trip, trip point_A point_A] = [trip point_A point_A]"
    by (simp add: full_trip_def trip_def)
  have "map poolId (fst (findAvailablePools (MatchingService None) (\<lambda>_. Rejected) (trip point_A point_A)
                         [trip point_A point_A])) = [''r1'']"
    using compatible_A_A[of "\<lambda>_. Rejected"] not_skipped_A_A[of None]
    by (simp add: findAvailablePools_steps fst_pool_step js_sort_single pool_entry_def)
       (simp add: trip_def)
  then show ?thesis
    using C3_full_pool_never_offered[of None "\<lambda>_. Rejected" "trip point_A point_A"
            "[full_trip, trip point_A point_A]"]
    by (simp only: f) (simp add: full_trip_def)
qed

section \<open>Route details and the provider\<close>

text \<open>
  \<open>getRouteDetails\<close> returns the fallback estimate when no key is configured and
  when the \<open>try\<close> throws or falls through: the request is rejected, the reply has no
  data, no routes, no legs, or a first leg without a distance or a duration object.
\<close>

lemma getRouteDetails_unconfigured:
  assumes "GOOGLE_MAPS_API_KEY this = None \<or> GOOGLE_MAPS_API_KEY this = Some []"
  shows "getRouteDetails this provider origin destination = (fallback_route origin destination, [])"
  using assms by (auto simp: getRouteDetails_def)

lemma getRouteDetails_cases:
  "fst (getRouteDetails this provider origin destination) = fallback_route origin destination
   \<or> (\<exists>r. provider_route (provider ((latitude origin, longitude origin),
                                      (latitude destination, longitude destination))) = Inr (Some r)
          \<and> fst (getRouteDetails this provider origin destination) = r)"
  by (auto simp: getRouteDetails_def Let_def split: sum.splits option.splits)

lemma provider_route_failures:
  "provider_route Rejected = Inl AxiosError"
  "provider_route (Response None) = Inl TypeError"
  "routes body = None \<Longrightarrow> provider_route (Response (Some body)) = Inr None"
  "routes body = Some [] \<Longrightarrow> provider_route (Response (Some body)) = Inr None"
  "routes body = Some (r0 # rs) \<Longrightarrow> legs r0 = None \<Longrightarrow> provider_route (Response (Some body)) = Inl TypeError"
  "routes body = Some (r0 # rs) \<Longrightarrow> legs r0 = Some [] \<Longrightarrow> provider_route (Response (Some body)) = Inl TypeError"
  "routes body = Some (r0 # rs) \<Longrightarrow> legs r0 = Some (l0 # ls) \<Longrightarrow> leg_distance l0 = None
     \<Longrightarrow> provider_route (Response (Some body)) = Inl TypeError"
  "routes body = Some (r0 # rs) \<Longrightarrow> legs r0 = Some (l0 # ls) \<Longrightarrow> leg_duration l0 = None
     \<Longrightarrow> provider_route (Response (Some body)) = Inl TypeError"
  by (simp_all add: provider_route_def split: option.splits)

lemma getRouteDetails_absorbs:
  assumes "provider_route (provider ((latitude origin, longitude origin),
                                     (latitude destination, longitude destination))) = Inl e
           \<or> provider_route (provider ((latitude origin, longitude origin),
                                     (latitude destination, longitude destination))) = Inr None"
  shows "fst (getRouteDetails this provider origin destination) = fallback_route origin destination"
  using assms by (auto simp: getRouteDetails_def Let_def)

text \<open>
  Claim C5. \<open>getRouteDetails\<close> never throws (it is a total function here: both
  exceptions of the \<open>try\<close> are caught), and it returns the fallback estimate in the
  cases above. It does not on every malformed reply: when the first leg has a distance
  and a duration object without a numeric \<open>value\<close>, nothing throws and the result is
  \<open>NaN\<close> for both figures instead of the fallback estimate.
\<close>

theorem C5_reply_without_figures:
  "fst (getRouteDetails (MatchingService (Some ''key'')) (\<lambda>_. reply_without_figures) point_A point_B) =
     \<lparr> distance = NaN, duration = NaN, distanceText = Some ''5 km'', durationText = Some ''10 mins'' \<rparr>
   \<and> fst (getRouteDetails (MatchingService (Some ''key'')) (\<lambda>_. reply_without_figures) point_A point_B)
       \<noteq> fallback_route point_A point_B
   \<and> distance (fallback_route point_A point_B) = Num (6371 * pi)"
  by (simp add: getRouteDetails_def MatchingService_def reply_without_figures_def provider_route_def
        to_number_def fallback_route_def distance_A_B Let_def)


section \<open>Fare share\<close>

lemma round_real_le: "round_real x \<le> x + 1 / 2"
  by (simp add: round_real_def)

lemma round_real_less_int_iff:
  assumes "b \<in> \<int>"
  shows "round_real x < b \<longleftrightarrow> x + 1 / 2 < b"
proof -
  from assms obtain k :: int where k: "b = of_int k" by (auto elim: Ints_cases)
  show ?thesis unfolding round_real_def k by (simp add: floor_less_iff)
qed

lemma calculateFareShare_value:
  assumes "detourDistance compatibility = Some (Num d)"
  shows "calculateFareShare newRide existingRide compatibility =
           Num (max (round_real (estimated_fare newRide * 0.75 + d * 10)) (estimated_fare newRide * 0.6))"
  using assms by (simp add: calculateFareShare_def to_number_def Let_def)

text \<open>
  Claim C4, amended. For every new ride with a positive base fare and every
  compatibility result with a non-negative detour distance, \<open>calculateFareShare\<close>
  returns \<open>max (round (baseFare \<times> 0.75 + detourDistance \<times> 10)) (0.6 \<times> baseFare)\<close>,
  which is at least \<open>0.6 \<times> baseFare\<close>. It is below \<open>baseFare\<close> when
  \<open>detourDistance \<times> 10 + 0.5 < 0.25 \<times> baseFare\<close>, and for a whole-number fare only
  then: the detour penalty is not capped.
\<close>

theorem C4_fare_share_bounds:
  assumes "0 < estimated_fare newRide"
      and "detourDistance compatibility = Some (Num d)"
      and "0 \<le> d"
  shows "(let baseFare = estimated_fare newRide;
              fare = max (round_real (baseFare * 0.75 + d * 10)) (0.6 * baseFare)
          in calculateFareShare newRide existingRide compatibility = Num fare
             \<and> 0.6 * baseFare \<le> fare
             \<and> (d * 10 + 0.5 < 0.25 * baseFare \<longrightarrow> fare < baseFare)
             \<and> (baseFare \<in> \<int> \<longrightarrow> (fare < baseFare \<longleftrightarrow> d * 10 + 0.5 < 0.25 * baseFare)))"
proof -
  define b where "b = estimated_fare newRide"
  define x where "x = b * 0.75 + d * 10"
  have v: "calculateFareShare newRide existingRide compatibility = Num (max (round_real x) (0.6 * b))"
    using calculateFareShare_value[OF assms(2)] by (simp add: x_def b_def mult.commute)
  have lo: "0.6 * b \<le> max (round_real x) (0.6 * b)" by simp
  have floor_lt: "0.6 * b < b" using assms(1) by (simp add: b_def)
  have up: "max (round_real x) (0.6 * b) < b" if "d * 10 + 0.5 < 0.25 * b"
  proof -
    have "round_real x \<le> x + 1 / 2" by (rule round_real_le)
    also have "\<dots> < b" using that by (simp add: x_def)
    finally show ?thesis using floor_lt by simp
  qed
  have iff: "max (round_real x) (0.6 * b) < b \<longleftrightarrow> d * 10 + 0.5 < 0.25 * b" if "b \<in> \<int>"
  proof -
    have "max (round_real x) (0.6 * b) < b \<longleftrightarrow> round_real x < b" using floor_lt by simp
    also have "\<dots> \<longleftrightarrow> x + 1 / 2 < b" by (rule round_real_less_int_iff[OF that])
    also have "\<dots> \<longleftrightarrow> d * 10 + 0.5 < 0.25 * b" by (auto simp: x_def)
    finally show ?thesis .
  qed
  show ?thesis
    unfolding Let_def b_def[symmetric] x_def[symmetric]
    using v lo up iff by blast
qed

lemma round_real_105: "round_real 105 = 105"
  by (simp add: round_real_def)

text \<open>
  Claim C4 as stated fails: a fare of 100 and a detour of 3 km give a share of 105.
\<close>

theorem C4_counterexample:
  "0 < estimated_fare cheap_request
   \<and> detourDistance detour_3 = Some (Num 3)
   \<and> calculateFareShare cheap_request (trip point_A point_A) detour_3 = Num 105
   \<and> \<not> (105 < estimated_fare cheap_request)"
  by (simp add: calculateFareShare_def cheap_request_def detour_3_def trip_def to_number_def
        round_real_105 Let_def)

theorem C4_witness:
  "0 < estimated_fare (trip point_A point_A)
   \<and> calculateFareShare (trip point_A point_A) (trip point_A point_A) detour_3 = Num 255
   \<and> (0.6::real) * 300 \<le> 255 \<and> (255::real) < 300"
proof -
  have h: "0 < estimated_fare (trip point_A point_A)" by (simp add: trip_fields)
  have e: "detourDistance detour_3 = Some (Num 3)" by (simp add: detour_3_def)
  have r: "round_real 255 = 255" by (simp add: round_real_def)
  show ?thesis
    using C4_fare_share_bounds[OF h e, of "trip point_A point_A"]
    by (simp add: trip_fields Let_def r)
qed


section \<open>Driver dispatch\<close>

text \<open>The head of a stable sort is the first of the minimal elements.\<close>

lemma sort_key_head_split:
  fixes f :: "'a \<Rightarrow> real"
  assumes "sort_key f xs = y # ys"
  shows "\<exists>pre post. xs = pre @ y # post \<and> (\<forall>e\<in>set pre. f y < f e) \<and> (\<forall>e\<in>set post. f y \<le> f e)"
  using assms
proof (induction xs arbitrary: y ys)
  case Nil
  then show ?case by simp
next
  case (Cons x xs)
  show ?case
  proof (cases "sort_key f xs")
    case Nil
    then have "xs = []" using length_sort[of f xs] by simp
    then have "x = y" "xs = []" using Cons.prems by simp_all
    then show ?thesis by (intro exI[of _ "[]"]) simp
  next
    case (Cons y' ys')
    from Cons.IH[OF Cons] obtain pre post where
      s: "xs = pre @ y' # post" "\<forall>e\<in>set pre. f y' < f e" "\<forall>e\<in>set post. f y' \<le> f e"
      by blast
    show ?thesis
    proof (cases "f x \<le> f y'")
      case True
      then have "y = x" using Cons.prems Cons by simp
      moreover have "\<forall>e\<in>set xs. f x \<le> f e" using s True by force
      ultimately show ?thesis by (intro exI[of _ "[]"] exI[of _ xs]) simp
    next
      case False
      then have "y = y'" using Cons.prems Cons by simp
      then show ?thesis using s False
        by (intro exI[of _ "x # pre"] exI[of _ post]) simp
    qed
  qed
qed

lemma filter_split:
  assumes "filter P ds = a @ d # b"
  shows "\<exists>before after. ds = before @ d # after \<and> filter P before = a \<and> P d \<and> filter P after = b"
  using assms
proof (induction ds arbitrary: a)
  case Nil
  then show ?case by simp
next
  case (Cons x ds)
  show ?case
  proof (cases "P x")
    case False
    then have "filter P ds = a @ d # b" using Cons.prems by simp
    from Cons.IH[OF this] obtain before after where
      "ds = before @ d # after" "filter P before = a" "P d" "filter P after = b" by blast
    then show ?thesis using False by (intro exI[of _ "x # before"] exI[of _ after]) simp
  next
    case True
    then have e: "x # filter P ds = a @ d # b" using Cons.prems by simp
    show ?thesis
    proof (cases a)
      case Nil
      then have "x = d" "filter P ds = b" using e by simp_all
      then show ?thesis using True Nil by (intro exI[of _ "[]"] exI[of _ ds]) simp
    next
      case (Cons x' a')
      then have "x' = x" "filter P ds = a' @ d # b" using e by simp_all
      from Cons.IH[OF this(2)] obtain before after where
        "ds = before @ d # after" "filter P before = a'" "P d" "filter P after = b" by blast
      then show ?thesis using True Cons \<open>x' = x\<close>
        by (intro exI[of _ "x # before"] exI[of _ after]) simp
    qed
  qed
qed

lemma map_filter_split:
  assumes "map g (filter P ds) = pre @ y # post"
  shows "\<exists>before d after. ds = before @ d # after \<and> P d \<and> g d = y
           \<and> map g (filter P before) = pre \<and> map g (filter P after) = post"
proof -
  from assms obtain a d b where f: "filter P ds = a @ d # b" "map g a = pre" "g d = y" "map g b = post"
    by (auto simp: map_eq_append_conv map_eq_Cons_conv)
  from filter_split[OF f(1)] obtain before after where
    "ds = before @ d # after" "filter P before = a" "P d" "filter P after = b"
    by blast
  then show ?thesis using f by auto
qed


lemma findAvailableDrivers_sort_key:
  "findAvailableDrivers rideRequest ds =
     sort_key distanceToPickup
       (map (\<lambda>d. nearby_entry d (calculateDistance (pickup_location rideRequest) (location' d)))
          (filter (available rideRequest) ds))"
proof -
  have "js_sort (\<lambda>a b. Num (distanceToPickup a - distanceToPickup b)) xs = sort_key distanceToPickup xs"
    for xs :: "nearby_driver list"
    by (rule js_sort_key) simp
  then show ?thesis by (simp add: findAvailableDrivers_def drivers_loop_filter)
qed

lemma nearby_entry_fields:
  "distanceToPickup (nearby_entry d x) = x"
  "estimatedArrival (nearby_entry d x) = round_real (x * 3)"
  "phone (nearby_entry d x) = phone d"
  by (simp_all add: nearby_entry_def)

lemma dispatch_facts:
  fixes rideRequest :: ride and ds :: "driver_record list"
  defines "dist_km \<equiv> (\<lambda>d::driver_record. calculateDistance (pickup_location rideRequest) (location' d))"
  defines "near \<equiv> (\<lambda>d. nearby_entry d (dist_km d))"
  defines "found \<equiv> findAvailableDrivers rideRequest ds"
  shows "found = sort_key distanceToPickup (map near (filter (available rideRequest) ds))"
    and "sorted (map distanceToPickup found)"
    and "filter (\<lambda>n. distanceToPickup n = k) found =
           map near (filter (\<lambda>d. available rideRequest d \<and> dist_km d = k) ds)"
    and "assignOptimalDriver rideRequest ds = None \<longleftrightarrow> \<not> (\<exists>d\<in>set ds. available rideRequest d)"
    and "assignOptimalDriver rideRequest ds = Some a \<Longrightarrow>
           \<exists>before d after.
              ds = before @ d # after \<and> available rideRequest d
              \<and> a = \<lparr> driver' = near d,
                      estimatedArrival' = integer_text (round_real (dist_km d * 3)) @ '' minutes'',
                      distance' = toFixed1 (dist_km d) @ '' km away'' \<rparr>
              \<and> (\<forall>e\<in>set before. available rideRequest e \<longrightarrow> dist_km d < dist_km e)
              \<and> (\<forall>e\<in>set after. available rideRequest e \<longrightarrow> dist_km d \<le> dist_km e)"
proof -
  define elig where "elig = map near (filter (available rideRequest) ds)"
  show f: "found = sort_key distanceToPickup (map near (filter (available rideRequest) ds))"
    by (simp add: found_def near_def dist_km_def findAvailableDrivers_sort_key)
  then have f': "found = sort_key distanceToPickup elig" by (simp add: elig_def)
  show "sorted (map distanceToPickup found)"
    unfolding f by (rule sorted_sort_key)
  have "filter (\<lambda>n. distanceToPickup n = k) found = filter (\<lambda>n. distanceToPickup n = k) elig"
    unfolding f' by (rule sort_key_stable)
  also have "\<dots> = map near (filter (\<lambda>d. available rideRequest d \<and> dist_km d = k) ds)"
    by (simp add: elig_def filter_map comp_def near_def nearby_entry_fields conj_commute)
  finally show "filter (\<lambda>n. distanceToPickup n = k) found =
           map near (filter (\<lambda>d. available rideRequest d \<and> dist_km d = k) ds)" .
  show "assignOptimalDriver rideRequest ds = None \<longleftrightarrow> \<not> (\<exists>d\<in>set ds. available rideRequest d)"
  proof -
    have "assignOptimalDriver rideRequest ds = None \<longleftrightarrow> found = []"
      by (simp add: assignOptimalDriver_def found_def split: list.splits)
    also have "\<dots> \<longleftrightarrow> length (sort_key distanceToPickup elig) = 0" by (simp only: f' length_0_conv)
    also have "\<dots> \<longleftrightarrow> filter (available rideRequest) ds = []" by (simp add: elig_def)
    also have "\<dots> \<longleftrightarrow> \<not> (\<exists>d\<in>set ds. available rideRequest d)" by (simp add: filter_empty_conv)
    finally show ?thesis .
  qed
  show "\<exists>before d after.
              ds = before @ d # after \<and> available rideRequest d
              \<and> a = \<lparr> driver' = near d,
                      estimatedArrival' = integer_text (round_real (dist_km d * 3)) @ '' minutes'',
                      distance' = toFixed1 (dist_km d) @ '' km away'' \<rparr>
              \<and> (\<forall>e\<in>set before. available rideRequest e \<longrightarrow> dist_km d < dist_km e)
              \<and> (\<forall>e\<in>set after. available rideRequest e \<longrightarrow> dist_km d \<le> dist_km e)"
    if a: "assignOptimalDriver rideRequest ds = Some a"
  proof -
    from a obtain y ys where y: "found = y # ys"
        "a = \<lparr> driver' = y, estimatedArrival' = integer_text (estimatedArrival y) @ '' minutes'',
               distance' = toFixed1 (distanceToPickup y) @ '' km away'' \<rparr>"
      by (auto simp: assignOptimalDriver_def found_def split: list.splits)
    from sort_key_head_split[OF y(1)[unfolded f']] obtain pre post where
      s: "elig = pre @ y # post" "\<forall>e\<in>set pre. distanceToPickup y < distanceToPickup e"
         "\<forall>e\<in>set post. distanceToPickup y \<le> distanceToPickup e"
      by blast
    from map_filter_split[OF s(1)[unfolded elig_def]] obtain before d after where
      d: "ds = before @ d # after" "available rideRequest d" "near d = y"
         "map near (filter (available rideRequest) before) = pre"
         "map near (filter (available rideRequest) after) = post"
      by blast
    have dy: "distanceToPickup y = dist_km d" "estimatedArrival y = round_real (dist_km d * 3)"
      using d(3) by (auto simp: near_def nearby_entry_fields)
    have b: "\<forall>e\<in>set before. available rideRequest e \<longrightarrow> dist_km d < dist_km e"
    proof (intro ballI impI)
      fix e assume "e \<in> set before" "available rideRequest e"
      then have "near e \<in> set pre" using d(4) by force
      then show "dist_km d < dist_km e" using s(2) dy by (auto simp: near_def nearby_entry_fields)
    qed
    have c: "\<forall>e\<in>set after. available rideRequest e \<longrightarrow> dist_km d \<le> dist_km e"
    proof (intro ballI impI)
      fix e assume "e \<in> set after" "available rideRequest e"
      then have "near e \<in> set post" using d(5) by force
      then show "dist_km d \<le> dist_km e" using s(3) dy by (auto simp: near_def nearby_entry_fields)
    qed
    have av: "a = \<lparr> driver' = near d,
                      estimatedArrival' = integer_text (round_real (dist_km d * 3)) @ '' minutes'',
                      distance' = toFixed1 (dist_km d) @ '' km away'' \<rparr>"
      using y(2) dy d(3) by simp
    show ?thesis
      using d(1,2) av b c by (intro exI[of _ before] exI[of _ d] exI[of _ after] conjI)
  qed
qed

text \<open>
  Claim C8. For every request and driver list: \<open>findAvailableDrivers\<close> returns exactly
  the drivers that are online, without a current ride and within 10 km of the request's
  pickup, each as its own fields with \<open>distanceToPickup\<close> the haversine distance from
  the pickup and \<open>estimatedArrival = round (distance \<times> 3)\<close>, sorted ascending by
  distance with equal distances in input order; \<open>assignOptimalDriver\<close> returns no
  assignment exactly when no driver of the list passes that test; otherwise it returns
  the nearest such driver, the first in the list among those nearest, with the texts
  \<open>round (distance \<times> 3)\<close> "minutes" and the distance to one decimal "km away".
\<close>

theorem C8_driver_dispatch:
  "(let dist_km = (\<lambda>d::driver_record. calculateDistance (pickup_location rideRequest) (location' d));
        eligible = (\<lambda>d. status d = ''online'' \<and> current_ride d = None \<and> dist_km d \<le> 10);
        near = (\<lambda>d. \<lparr> phone = phone d, status = status d, location' = location' d,
                       current_ride = current_ride d,
                       distanceToPickup = dist_km d,
                       estimatedArrival = round_real (dist_km d * 3) \<rparr>);
        found = findAvailableDrivers rideRequest ds
    in found = sort_key distanceToPickup (map near (filter eligible ds))
       \<and> sorted (map distanceToPickup found)
       \<and> (\<forall>k. filter (\<lambda>n. distanceToPickup n = k) found =
                map near (filter (\<lambda>d. eligible d \<and> dist_km d = k) ds))
       \<and> (assignOptimalDriver rideRequest ds = None \<longleftrightarrow> \<not> (\<exists>d\<in>set ds. eligible d))
       \<and> (\<forall>a. assignOptimalDriver rideRequest ds = Some a \<longrightarrow>
              (\<exists>before d after.
                  ds = before @ d # after \<and> eligible d
                  \<and> a = \<lparr> driver' = near d,
                          estimatedArrival' = integer_text (round_real (dist_km d * 3)) @ '' minutes'',
                          distance' = toFixed1 (dist_km d) @ '' km away'' \<rparr>
                  \<and> (\<forall>e\<in>set before. eligible e \<longrightarrow> dist_km d < dist_km e)
                  \<and> (\<forall>e\<in>set after. eligible e \<longrightarrow> dist_km d \<le> dist_km e))))"
proof -
  note facts = dispatch_facts[unfolded nearby_entry_def available_def]
  show ?thesis
    unfolding Let_def
  proof (intro conjI allI impI)
    show "findAvailableDrivers rideRequest ds =
      sort_key distanceToPickup
       (map (\<lambda>d. \<lparr>phone = phone d, status = status d, location' = location' d,
                    current_ride = current_ride d,
                    distanceToPickup = calculateDistance (pickup_location rideRequest) (location' d),
                    estimatedArrival =
                      round_real (calculateDistance (pickup_location rideRequest) (location' d) * 3)\<rparr>)
         (filter (\<lambda>d. status d = ''online'' \<and> current_ride d = None \<and>
                       calculateDistance (pickup_location rideRequest) (location' d) \<le> 10) ds))"
      by (rule facts(1))
    show "sorted (map distanceToPickup (findAvailableDrivers rideRequest ds))"
      by (rule facts(2))
  next
    fix k
    show "filter (\<lambda>n. distanceToPickup n = k) (findAvailableDrivers rideRequest ds) =
         map (\<lambda>d. \<lparr>phone = phone d, status = status d, location' = location' d,
                    current_ride = current_ride d,
                    distanceToPickup = calculateDistance (pickup_location rideRequest) (location' d),
                    estimatedArrival =
                      round_real (calculateDistance (pickup_location rideRequest) (location' d) * 3)\<rparr>)
          (filter (\<lambda>d. (status d = ''online'' \<and> current_ride d = None \<and>
                       calculateDistance (pickup_location rideRequest) (location' d) \<le> 10) \<and>
                       calculateDistance (pickup_location rideRequest) (location' d) = k) ds)"
      by (rule facts(3))
  next
    show "(assignOptimalDriver rideRequest ds = None) =
          (\<not> (\<exists>d\<in>set ds. status d = ''online'' \<and> current_ride d = None \<and>
                       calculateDistance (pickup_location rideRequest) (location' d) \<le> 10))"
      by (rule facts(4))
  next
    fix a assume "assignOptimalDriver rideRequest ds = Some a"
    from facts(5)[OF this]
    show "\<exists>before d after.
            ds = before @ d # after \<and>
            (status d = ''online'' \<and> current_ride d = None \<and>
               calculateDistance (pickup_location rideRequest) (location' d) \<le> 10) \<and>
            a = \<lparr>driver' = \<lparr>phone = phone d, status = status d, location' = location' d,
                    current_ride = current_ride d,
                    distanceToPickup = calculateDistance (pickup_location rideRequest) (location' d),
                    estimatedArrival =
                      round_real (calculateDistance (pickup_location rideRequest) (location' d) * 3)\<rparr>,
                 estimatedArrival' =
                   integer_text (round_real (calculateDistance (pickup_location rideRequest) (location' d) * 3)) @
                   '' minutes'',
                 distance' = toFixed1 (calculateDistance (pickup_location rideRequest) (location' d)) @ '' km away''\<rparr> \<and>
            (\<forall>e\<in>set before.
                (status e = ''online'' \<and> current_ride e = None \<and>
                 calculateDistance (pickup_location rideRequest) (location' e) \<le> 10) \<longrightarrow>
                calculateDistance (pickup_location rideRequest) (location' d)
                < calculateDistance (pickup_location rideRequest) (location' e)) \<and>
            (\<forall>e\<in>set after.
                (status e = ''online'' \<and> current_ride e = None \<and>
                 calculateDistance (pickup_location rideRequest) (location' e) \<le> 10) \<longrightarrow>
                calculateDistance (pickup_location rideRequest) (location' d)
                \<le> calculateDistance (pickup_location rideRequest) (location' e))" .
  qed
qed


lemma pi_ge_three: "3 \<le> pi"
proof -
  have "sin (pi / 6) \<le> pi / 6" by (rule sin_x_le_x) simp
  then show ?thesis by (simp add: sin_30)
qed

lemma equator_distance:
  assumes "latitude p = 0" "latitude q = 0"
      and "0 \<le> longitude q - longitude p" "longitude q - longitude p < 180"
  shows "calculateDistance p q = 6371 * toRadians (longitude q - longitude p)"
proof -
  define x where "x = toRadians (longitude q - longitude p) / 2"
  have x0: "0 \<le> x" using assms(3) by (simp add: x_def toRadians_def)
  have "toRadians (longitude q - longitude p) < toRadians 180"
    using assms(4) by (simp add: toRadians_def)
  then have x1: "x < pi / 2" by (simp add: x_def toRadians_def)
  have s: "0 \<le> sin x" using x0 x1 by (intro sin_ge_zero) simp_all
  have c: "0 < cos x" using x0 x1 by (intro cos_gt_zero_pi) simp_all
  have a: "haversine_a p q = (sin x)\<^sup>2"
    using assms(1,2) by (simp add: haversine_a_def Let_def x_def toRadians_def power2_eq_square)
  have "1 - (sin x)\<^sup>2 = (cos x)\<^sup>2" by (simp add: cos_squared_eq)
  then have "sqrt (1 - haversine_a p q) = cos x" using c by (simp add: a)
  moreover have "sqrt (haversine_a p q) = sin x" using s by (simp add: a)
  ultimately have "atan2 (sqrt (haversine_a p q)) (sqrt (1 - haversine_a p q)) = arctan (tan x)"
    using c by (simp add: atan2_def tan_def)
  also have "\<dots> = x" using x0 x1 by (intro arctan_tan) simp_all
  finally show ?thesis by (simp add: calculateDistance_def Let_def x_def)
qed

lemma distance_far: "calculateDistance point_A (location' driver_far) = 6371 * pi"
  by (simp add: calculateDistance_def haversine_a_def toRadians_def atan2_def point_A_def
        driver_far_def)

lemma distance_close_mid:
  "calculateDistance point_A (location' driver_close) = 3 * pi / 50"
  "calculateDistance point_A (location' driver_mid) = 3 * pi / 25"
proof -
  show "calculateDistance point_A (location' driver_close) = 3 * pi / 50"
    by (subst equator_distance) (simp_all add: point_A_def driver_close_def toRadians_def)
  show "calculateDistance point_A (location' driver_mid) = 3 * pi / 25"
    by (subst equator_distance) (simp_all add: point_A_def driver_mid_def toRadians_def)
qed

lemma close_texts:
  "round_real (3 * pi / 50 * 3) = 1"
  "integer_text 1 = ''1''"
  "toFixed1 (3 * pi / 50) = ''0.2''"
proof -
  have b: "3 \<le> pi" "pi < 4" using pi_ge_three pi_less_4 by simp_all
  have "\<lfloor>3 * pi / 50 * 3 + 1 / 2\<rfloor> = 1" using b by (intro floor_unique) simp_all
  then show "round_real (3 * pi / 50 * 3) = 1" by (simp add: round_real_def)
  show "integer_text 1 = ''1''" by code_simp
  have "\<lfloor>\<bar>3 * pi / 50\<bar> * 10 + 1 / 2\<rfloor> = 2" using b by (intro floor_unique) simp_all
  moreover have "digits 0 = ''0''" "digits 2 = ''2''" by code_simp+
  ultimately show "toFixed1 (3 * pi / 50) = ''0.2''" by (simp add: toFixed1_def)
qed


lemma eligible_drivers:
  "calculateDistance point_A (location' driver_close) \<le> 10"
  "calculateDistance point_A (location' driver_mid) \<le> 10"
  "\<not> calculateDistance point_A (location' driver_far) \<le> 10"
  "calculateDistance point_A (location' driver_close) < calculateDistance point_A (location' driver_mid)"
  "status driver_close = ''online''" "status driver_mid = ''online''" "status driver_far = ''online''"
  "current_ride driver_close = None" "current_ride driver_mid = None"
  "current_ride driver_busy = Some ''r9''"
proof -
  have b: "2 \<le> pi" "pi < 4" using pi_ge_two pi_less_4 by simp_all
  then show "calculateDistance point_A (location' driver_close) \<le> 10"
    "calculateDistance point_A (location' driver_mid) \<le> 10"
    "\<not> calculateDistance point_A (location' driver_far) \<le> 10"
    "calculateDistance point_A (location' driver_close) < calculateDistance point_A (location' driver_mid)"
    by (simp_all add: distance_close_mid distance_far)
qed (simp_all add: driver_close_def driver_mid_def driver_far_def driver_busy_def)

lemma close_values:
  "round_real (calculateDistance point_A (location' driver_close) * 3) = 1"
  "toFixed1 (calculateDistance point_A (location' driver_close)) = ''0.2''"
  "\<not> calculateDistance point_A (location' driver_mid) \<le> calculateDistance point_A (location' driver_close)"
  using eligible_drivers(4) by (simp_all only: distance_close_mid close_texts not_le)

theorem C8_witness:
  "assignOptimalDriver (trip point_A point_A) [driver_far, driver_mid, driver_busy, driver_close] =
     Some \<lparr> driver' = \<lparr> phone = ''+914'', status = ''online'',
                         location' = \<lparr> latitude = 0, longitude = 10.8 / 6371 \<rparr>,
                         current_ride = None,
                         distanceToPickup = 3 * pi / 50,
                         estimatedArrival = 1 \<rparr>,
            estimatedArrival' = ''1 minutes'',
            distance' = ''0.2 km away'' \<rparr>
   \<and> map phone (findAvailableDrivers (trip point_A point_A)
                   [driver_far, driver_mid, driver_busy, driver_close]) = [''+914'', ''+915'']
   \<and> assignOptimalDriver (trip point_A point_A) [driver_far, driver_busy] = None"
proof -
  let ?ds = "[driver_far, driver_mid, driver_busy, driver_close]"
  let ?dist = "\<lambda>d::driver_record. calculateDistance point_A (location' d)"
  let ?near = "\<lambda>d. \<lparr> phone = phone d, status = status d, location' = location' d,
                       current_ride = current_ride d, distanceToPickup = ?dist d,
                       estimatedArrival = round_real (?dist d * 3) \<rparr>"
  have fl: "filter (\<lambda>d. status d = ''online'' \<and> current_ride d = None \<and> ?dist d \<le> 10) ?ds =
            [driver_mid, driver_close]"
    by (simp add: eligible_drivers)
  have "findAvailableDrivers (trip point_A point_A) ?ds =
          sort_key distanceToPickup
            (map ?near (filter (\<lambda>d. status d = ''online'' \<and> current_ride d = None \<and> ?dist d \<le> 10) ?ds))"
    using C8_driver_dispatch[of "trip point_A point_A" ?ds]
    by (simp only: Let_def trip_fields)
  then have f: "findAvailableDrivers (trip point_A point_A) ?ds = [?near driver_close, ?near driver_mid]"
    by (simp only: fl) (simp add: close_values(3))
  have g: "assignOptimalDriver (trip point_A point_A) [driver_far, driver_busy] = None"
    using C8_driver_dispatch[of "trip point_A point_A" "[driver_far, driver_busy]"]
    by (simp add: Let_def trip_fields eligible_drivers)
  have h: "assignOptimalDriver (trip point_A point_A) ?ds =
        Some \<lparr> driver' = ?near driver_close,
               estimatedArrival' = ''1 minutes'', distance' = ''0.2 km away'' \<rparr>"
    by (simp add: assignOptimalDriver_def f close_values close_texts(2))
  have n: "?near driver_close =
           \<lparr> phone = ''+914'', status = ''online'',
              location' = \<lparr> latitude = 0, longitude = 10.8 / 6371 \<rparr>, current_ride = None,
              distanceToPickup = 3 * pi / 50, estimatedArrival = 1 \<rparr>"
    by (simp only: distance_close_mid(1) close_texts(1)) (simp add: driver_close_def)
  have p: "map phone (findAvailableDrivers (trip point_A point_A) ?ds) = [''+914'', ''+915'']"
  proof -
    have "phone driver_close = ''+914''" "phone driver_mid = ''+915''"
      by (simp_all add: driver_close_def driver_mid_def)
    then show ?thesis by (simp add: f)
  qed
  show ?thesis using g h p by (simp only: n)
qed


section \<open>Properties of the distance\<close>







section \<open>Inputs out of range\<close>


lemma compatible_same_place:
  assumes "pickup_location r = p" "destination_location r = p"
      and "pickup_location r' = p" "destination_location r' = p"
  shows "isCompatible (fst (calculateRouteCompatibility (MatchingService None) provider r r'))"
  using assms
  by (simp add: calculateRouteCompatibility_def compatibility_try_def getOptimalPoolRoute_def
        waypoint_order_pool sequencer_spec_def calculateTotalRouteDistance_def
        getRouteDetails_def fallback_route_def calculateDistance_self
        MatchingService_def jsub_def Let_def)





section \<open>Order of the pools\<close>

text \<open>
  The score is \<open>NaN\<close> or a number from 0 to 100. For a compatible candidate it is
  \<open>NaN\<close> exactly when the solo route and the combined route both have distance
  zero: the efficiency bonus then divides zero by zero.
\<close>

lemma clamp_cases:
  "jmax (Num 0) (jmin (Num 100) (jround x)) = NaN
   \<or> (\<exists>s. jmax (Num 0) (jmin (Num 100) (jround x)) = Num s \<and> 0 \<le> s \<and> s \<le> 100)"
  by (cases x) auto

lemma score_cases:
  "calculateCompatibilityScore this dd dt pd originalRoute pooledRoute = NaN
   \<or> (\<exists>s. calculateCompatibilityScore this dd dt pd originalRoute pooledRoute = Num s
          \<and> 0 \<le> s \<and> s \<le> 100)"
  unfolding calculateCompatibilityScore_def Let_def by (rule clamp_cases)

lemma score_same_place:
  assumes "pickup_location r = p" "destination_location r = p"
      and "pickup_location r' = p" "destination_location r' = p"
  shows "score (fst (calculateRouteCompatibility (MatchingService None) provider r r')) = NaN"
  using assms
  by (simp add: calculateRouteCompatibility_def compatibility_try_def getOptimalPoolRoute_def
        waypoint_order_pool sequencer_spec_def calculateTotalRouteDistance_def
        getRouteDetails_def fallback_route_def calculateDistance_self
        calculateCompatibilityScore_def MatchingService_def jsub_def Let_def)

lemma score_nan_iff:
  assumes "distance pooledRoute = Num pd"
      and "jle (jsub (Num pd) (distance originalRoute)) (Num 5)"
      and "jle (jsub (Num pt) ot) (Num 15)"
  shows "calculateCompatibilityScore (MatchingService key)
           (jsub (Num pd) (distance originalRoute)) (jsub (Num pt) ot) pk originalRoute pooledRoute = NaN
         \<longleftrightarrow> distance originalRoute = Num 0 \<and> pd = 0"
proof (cases "distance originalRoute")
  case (Num od)
  then obtain dt where dt: "jsub (Num pt) ot = Num dt \<or> jsub (Num pt) ot = NInf"
    using assms(3) by (cases ot) (auto simp: jsub_def)
  show ?thesis
  proof (cases "od = 0")
    case True
    then show ?thesis using Num dt assms(1)
      by (auto simp: calculateCompatibilityScore_def MatchingService_def jsub_def Let_def)
  next
    case False
    then show ?thesis using Num dt assms(1)
      by (auto simp: calculateCompatibilityScore_def MatchingService_def jsub_def Let_def)
  qed
next
  case PInf
  then obtain dt where dt: "jsub (Num pt) ot = Num dt \<or> jsub (Num pt) ot = NInf"
    using assms(3) by (cases ot) (auto simp: jsub_def)
  then show ?thesis using PInf assms(1)
    by (auto simp: calculateCompatibilityScore_def MatchingService_def jsub_def Let_def)
next
  case NInf
  then show ?thesis using assms(2) by (simp add: jsub_def)
next
  case NaN
  then show ?thesis using assms(2) by (simp add: jsub_def)
qed


text \<open>
  When every candidate's score is a number, the result of \<open>findAvailablePools\<close> is in
  non-increasing order of score, and candidates of equal score keep their input order.
\<close>

lemma pools_sorted_if_scores_numeric:
  fixes this provider rideRequest rides
  defines "unsorted \<equiv> concat (map (\<lambda>r. fst (pool_step this provider rideRequest r)) rides)"
  defines "out \<equiv> fst (findAvailablePools this provider rideRequest rides)"
  assumes num: "\<forall>c\<in>set unsorted. \<exists>s. compatibilityScore c = Num s"
  shows "(\<forall>i. Suc i < length out \<longrightarrow> jge (compatibilityScore (out ! i)) (compatibilityScore (out ! Suc i)))
       \<and> (\<forall>s. filter (\<lambda>c. compatibilityScore c = Num s) out =
                filter (\<lambda>c. compatibilityScore c = Num s) unsorted)"
proof -
  define k where "k = (\<lambda>c::pool_candidate. case compatibilityScore c of Num s \<Rightarrow> - s | _ \<Rightarrow> 0)"
  have kn: "compatibilityScore c = Num (- k c)" if "c \<in> set unsorted" for c
    using num that by (auto simp: k_def)
  have "\<forall>x\<in>set unsorted. \<forall>y\<in>set unsorted.
          jlt (Num 0) (jsub (compatibilityScore y) (compatibilityScore x)) = (k y < k x)"
    by (auto simp: kn jsub_def)
  then have "js_sort (\<lambda>a b. jsub (compatibilityScore b) (compatibilityScore a)) unsorted = sort_key k unsorted"
    by (rule js_sort_key)
  then have o: "out = sort_key k unsorted"
    by (simp add: out_def unsorted_def findAvailablePools_steps)
  have mem: "c \<in> set unsorted" if "c \<in> set out" for c using that by (simp add: o)
  have a: "jge (compatibilityScore (out ! i)) (compatibilityScore (out ! Suc i))" if "Suc i < length out" for i
  proof -
    have "sorted (map k out)" unfolding o by (rule sorted_sort_key)
    then have "map k out ! i \<le> map k out ! Suc i"
      using that by (intro sorted_nth_mono) simp_all
    then have "k (out ! i) \<le> k (out ! Suc i)" using that by simp
    moreover have "out ! i \<in> set unsorted" "out ! Suc i \<in> set unsorted"
      using that by (auto intro!: mem)
    ultimately show ?thesis by (simp add: kn jge_def)
  qed
  have b: "filter (\<lambda>c. compatibilityScore c = Num r) out =
           filter (\<lambda>c. compatibilityScore c = Num r) unsorted" for r
  proof -
    have "filter (\<lambda>c. compatibilityScore c = Num r) out = filter (\<lambda>c. k c = - r) out"
      by (rule filter_cong) (auto dest!: mem kn)
    also have "\<dots> = filter (\<lambda>c. k c = - r) unsorted" unfolding o by (rule sort_key_stable)
    also have "\<dots> = filter (\<lambda>c. compatibilityScore c = Num r) unsorted"
      by (rule filter_cong) (auto dest!: kn)
    finally show ?thesis .
  qed
  show ?thesis using a b by blast
qed


text \<open>
  Claim C2. The result of \<open>findAvailablePools\<close> is not in non-increasing order of
  score for every input: for a request and two rides that all start and end at one
  point, both candidates are returned with the score \<open>NaN\<close>, and \<open>NaN \<ge> NaN\<close> is
  false.
\<close>

theorem C2_nan_scores:
  "map poolId (fst (findAvailablePools (MatchingService None) (\<lambda>_. Rejected) (trip point_A point_A)
                      [trip point_A point_A, second_trip])) = [''r1'', ''r3'']
   \<and> map compatibilityScore
         (fst (findAvailablePools (MatchingService None) (\<lambda>_. Rejected) (trip point_A point_A)
                 [trip point_A point_A, second_trip])) = [NaN, NaN]
   \<and> \<not> jge NaN NaN"
proof -
  let ?svc = "MatchingService None" and ?p = "\<lambda>_::request. Rejected" and ?q = "trip point_A point_A"
  have f: "pickup_location second_trip = point_A" "destination_location second_trip = point_A"
      "ride_id second_trip = ''r3''" "ride_id ?q = ''r1''"
      "allow_pooling second_trip" "\<not> female_only second_trip" "pool_passengers second_trip = Some []"
    by (simp_all add: second_trip_def trip_def)
  have c1: "isCompatible (fst (calculateRouteCompatibility ?svc ?p ?q ?q))"
    by (rule compatible_same_place[where p = point_A]) (simp_all add: trip_fields)
  have c2: "isCompatible (fst (calculateRouteCompatibility ?svc ?p ?q second_trip))"
    by (rule compatible_same_place[where p = point_A]) (simp_all add: trip_fields f)
  have s1: "score (fst (calculateRouteCompatibility ?svc ?p ?q ?q)) = NaN"
    by (rule score_same_place[where p = point_A]) (simp_all add: trip_fields)
  have s2: "score (fst (calculateRouteCompatibility ?svc ?p ?q second_trip)) = NaN"
    by (rule score_same_place[where p = point_A]) (simp_all add: trip_fields f)
  have k1: "\<not> skipped ?svc ?q ?q" by (rule not_skipped_A_A)
  have k2: "\<not> skipped ?svc ?q second_trip"
    by (simp add: skipped_def trip_fields f MatchingService_def)
  have "fst (findAvailablePools ?svc ?p ?q [?q, second_trip]) =
          [pool_entry ?q ?q (fst (calculateRouteCompatibility ?svc ?p ?q ?q)),
           pool_entry ?q second_trip (fst (calculateRouteCompatibility ?svc ?p ?q second_trip))]"
    using c1 c2 k1 k2
    by (simp add: findAvailablePools_steps fst_pool_step js_sort_def pool_entry_def s1 s2 jsub_def)
  then show ?thesis
    by (simp add: pool_entry_def s1 s2 f jge_def)
qed


end
